theory Spec2Isabelle
  imports Complex_Main "HOL-Library.Char_ord" "HOL-Library.List_Lexorder"
    "HOL-Library.State_Monad"
begin

section \<open>Vocabulary: layers, element types, relationship types\<close>

text \<open>
  The three enums of \<^verbatim>\<open>models/archimate.ts\<close>.  At run time each member is the string
  written next to it in the source; \<open>layer_name\<close>, \<open>element_type_name\<close> and
  \<open>relationship_type_name\<close> give that string, which is what the code sorts by and what it
  interpolates into messages.
\<close>

datatype Layer =
    MOTIVATION | STRATEGY | BUSINESS | APPLICATION | TECHNOLOGY | PHYSICAL | IMPLEMENTATION

datatype ElementType =
    STAKEHOLDER | DRIVER | ASSESSMENT | GOAL | OUTCOME | PRINCIPLE | REQUIREMENT
  | CONSTRAINT | MEANING | VALUE
  | RESOURCE | CAPABILITY | COURSE_OF_ACTION | VALUE_STREAM
  | BUSINESS_ACTOR | BUSINESS_ROLE | BUSINESS_COLLABORATION | BUSINESS_INTERFACE
  | BUSINESS_PROCESS | BUSINESS_FUNCTION | BUSINESS_INTERACTION | BUSINESS_EVENT
  | BUSINESS_SERVICE | BUSINESS_OBJECT | CONTRACT | REPRESENTATION | PRODUCT
  | APPLICATION_COMPONENT | APPLICATION_COLLABORATION | APPLICATION_INTERFACE
  | APPLICATION_FUNCTION | APPLICATION_INTERACTION | APPLICATION_PROCESS
  | APPLICATION_EVENT | APPLICATION_SERVICE | DATA_OBJECT
  | NODE | DEVICE | SYSTEM_SOFTWARE | TECHNOLOGY_COLLABORATION | TECHNOLOGY_INTERFACE
  | PATH | COMMUNICATION_NETWORK | TECHNOLOGY_FUNCTION | TECHNOLOGY_PROCESS
  | TECHNOLOGY_INTERACTION | TECHNOLOGY_EVENT | TECHNOLOGY_SERVICE | ARTIFACT
  | EQUIPMENT | FACILITY | DISTRIBUTION_NETWORK | MATERIAL | LOCATION
  | WORK_PACKAGE | DELIVERABLE | IMPLEMENTATION_EVENT | PLATEAU | GAP

datatype RelationshipType =
    COMPOSITION | AGGREGATION | ASSIGNMENT | REALIZATION
  | SERVING | ACCESS | INFLUENCE
  | TRIGGERING | FLOW
  | SPECIALIZATION | ASSOCIATION | JUNCTION

fun layer_name :: "Layer \<Rightarrow> string" where
  "layer_name MOTIVATION = ''Motivation''"
| "layer_name STRATEGY = ''Strategy''"
| "layer_name BUSINESS = ''Business''"
| "layer_name APPLICATION = ''Application''"
| "layer_name TECHNOLOGY = ''Technology''"
| "layer_name PHYSICAL = ''Physical''"
| "layer_name IMPLEMENTATION = ''Implementation''"

fun element_type_name :: "ElementType \<Rightarrow> string" where
  "element_type_name STAKEHOLDER = ''Stakeholder''"
| "element_type_name DRIVER = ''Driver''"
| "element_type_name ASSESSMENT = ''Assessment''"
| "element_type_name GOAL = ''Goal''"
| "element_type_name OUTCOME = ''Outcome''"
| "element_type_name PRINCIPLE = ''Principle''"
| "element_type_name REQUIREMENT = ''Requirement''"
| "element_type_name CONSTRAINT = ''Constraint''"
| "element_type_name MEANING = ''Meaning''"
| "element_type_name VALUE = ''Value''"
| "element_type_name RESOURCE = ''Resource''"
| "element_type_name CAPABILITY = ''Capability''"
| "element_type_name COURSE_OF_ACTION = ''CourseOfAction''"
| "element_type_name VALUE_STREAM = ''ValueStream''"
| "element_type_name BUSINESS_ACTOR = ''BusinessActor''"
| "element_type_name BUSINESS_ROLE = ''BusinessRole''"
| "element_type_name BUSINESS_COLLABORATION = ''BusinessCollaboration''"
| "element_type_name BUSINESS_INTERFACE = ''BusinessInterface''"
| "element_type_name BUSINESS_PROCESS = ''BusinessProcess''"
| "element_type_name BUSINESS_FUNCTION = ''BusinessFunction''"
| "element_type_name BUSINESS_INTERACTION = ''BusinessInteraction''"
| "element_type_name BUSINESS_EVENT = ''BusinessEvent''"
| "element_type_name BUSINESS_SERVICE = ''BusinessService''"
| "element_type_name BUSINESS_OBJECT = ''BusinessObject''"
| "element_type_name CONTRACT = ''Contract''"
| "element_type_name REPRESENTATION = ''Representation''"
| "element_type_name PRODUCT = ''Product''"
| "element_type_name APPLICATION_COMPONENT = ''ApplicationComponent''"
| "element_type_name APPLICATION_COLLABORATION = ''ApplicationCollaboration''"
| "element_type_name APPLICATION_INTERFACE = ''ApplicationInterface''"
| "element_type_name APPLICATION_FUNCTION = ''ApplicationFunction''"
| "element_type_name APPLICATION_INTERACTION = ''ApplicationInteraction''"
| "element_type_name APPLICATION_PROCESS = ''ApplicationProcess''"
| "element_type_name APPLICATION_EVENT = ''ApplicationEvent''"
| "element_type_name APPLICATION_SERVICE = ''ApplicationService''"
| "element_type_name DATA_OBJECT = ''DataObject''"
| "element_type_name NODE = ''Node''"
| "element_type_name DEVICE = ''Device''"
| "element_type_name SYSTEM_SOFTWARE = ''SystemSoftware''"
| "element_type_name TECHNOLOGY_COLLABORATION = ''TechnologyCollaboration''"
| "element_type_name TECHNOLOGY_INTERFACE = ''TechnologyInterface''"
| "element_type_name PATH = ''Path''"
| "element_type_name COMMUNICATION_NETWORK = ''CommunicationNetwork''"
| "element_type_name TECHNOLOGY_FUNCTION = ''TechnologyFunction''"
| "element_type_name TECHNOLOGY_PROCESS = ''TechnologyProcess''"
| "element_type_name TECHNOLOGY_INTERACTION = ''TechnologyInteraction''"
| "element_type_name TECHNOLOGY_EVENT = ''TechnologyEvent''"
| "element_type_name TECHNOLOGY_SERVICE = ''TechnologyService''"
| "element_type_name ARTIFACT = ''Artifact''"
| "element_type_name EQUIPMENT = ''Equipment''"
| "element_type_name FACILITY = ''Facility''"
| "element_type_name DISTRIBUTION_NETWORK = ''DistributionNetwork''"
| "element_type_name MATERIAL = ''Material''"
| "element_type_name LOCATION = ''Location''"
| "element_type_name WORK_PACKAGE = ''WorkPackage''"
| "element_type_name DELIVERABLE = ''Deliverable''"
| "element_type_name IMPLEMENTATION_EVENT = ''ImplementationEvent''"
| "element_type_name PLATEAU = ''Plateau''"
| "element_type_name GAP = ''Gap''"

fun relationship_type_name :: "RelationshipType \<Rightarrow> string" where
  "relationship_type_name COMPOSITION = ''Composition''"
| "relationship_type_name AGGREGATION = ''Aggregation''"
| "relationship_type_name ASSIGNMENT = ''Assignment''"
| "relationship_type_name REALIZATION = ''Realization''"
| "relationship_type_name SERVING = ''Serving''"
| "relationship_type_name ACCESS = ''Access''"
| "relationship_type_name INFLUENCE = ''Influence''"
| "relationship_type_name TRIGGERING = ''Triggering''"
| "relationship_type_name FLOW = ''Flow''"
| "relationship_type_name SPECIALIZATION = ''Specialization''"
| "relationship_type_name ASSOCIATION = ''Association''"
| "relationship_type_name JUNCTION = ''Junction''"

section \<open>Elements and relationships\<close>

text \<open>
  \<^verbatim>\<open>BaseElement\<close> (core/element.ts) and \<^verbatim>\<open>Relationship\<close> (core/relationship.ts): four
  read-only fields each.  The field names carry a prefix because \<open>id\<close> is a HOL constant.
\<close>

record BaseElement =
  el_id :: string
  el_name :: string
  el_type :: ElementType
  el_layer :: Layer

record Relationship =
  rel_id :: string
  rel_source :: string
  rel_target :: string
  rel_type :: RelationshipType

section \<open>Validator\<close>

text \<open>
  \<^verbatim>\<open>validationMatrix\<close> (validator/validation\_matrix.ts): a map of maps; the inner value is
  the array of allowed relationship types.
\<close>

definition validationMatrix ::
  "ElementType \<rightharpoonup> (ElementType \<rightharpoonup> RelationshipType list)" where
  "validationMatrix =
     [BUSINESS_ACTOR \<mapsto> [BUSINESS_ROLE \<mapsto> [ASSIGNMENT]],
      APPLICATION_COMPONENT \<mapsto> [APPLICATION_COMPONENT \<mapsto> [COMPOSITION, AGGREGATION]],
      VALUE_STREAM \<mapsto> [VALUE_STREAM \<mapsto> [COMPOSITION, AGGREGATION]],
      LOCATION \<mapsto> [LOCATION \<mapsto> [COMPOSITION, AGGREGATION]]]"

record ValidationError =
  err_message :: string
  err_source :: BaseElement
  err_target :: BaseElement
  err_relationship :: Relationship

text \<open>
  \<^verbatim>\<open>new Map(elements.map(e => [e.id, e]))\<close>: entries are set in array order, so of two
  elements with one id the later one stays.
\<close>

definition elementMap :: "BaseElement list \<Rightarrow> (string \<rightharpoonup> BaseElement)" where
  "elementMap elements = foldl (\<lambda>m e. m(el_id e \<mapsto> e)) Map.empty elements"

text \<open>\<^verbatim>\<open>validationMatrix.get(source.type)?.get(target.type)\<close>.\<close>

definition allowedRelationships :: "ElementType \<Rightarrow> ElementType \<Rightarrow> RelationshipType list option" where
  "allowedRelationships st tt =
     (case validationMatrix st of None \<Rightarrow> None | Some inner \<Rightarrow> inner tt)"

definition invalid_message :: "Relationship \<Rightarrow> BaseElement \<Rightarrow> BaseElement \<Rightarrow> string" where
  "invalid_message r s t =
     ''Invalid relationship type '' @ [CHR 0x27] @ relationship_type_name (rel_type r) @ [CHR 0x27]
       @ '' between '' @ [CHR 0x27] @ element_type_name (el_type s) @ [CHR 0x27]
       @ '' and '' @ [CHR 0x27] @ element_type_name (el_type t) @ [CHR 0x27]"

text \<open>One pass of the \<^verbatim>\<open>for\<close> loop of \<^verbatim>\<open>Validator.validate\<close>; \<open>errors\<close> is the array pushed to.\<close>

definition validate_step ::
  "(string \<rightharpoonup> BaseElement) \<Rightarrow> ValidationError list \<Rightarrow> Relationship \<Rightarrow> ValidationError list" where
  "validate_step m errors r =
     (case m (rel_source r) of
        None \<Rightarrow> errors
      | Some s \<Rightarrow>
          (case m (rel_target r) of
             None \<Rightarrow> errors
           | Some t \<Rightarrow>
               (let push = errors @ [\<lparr>err_message = invalid_message r s t, err_source = s,
                                        err_target = t, err_relationship = r\<rparr>]
                in case allowedRelationships (el_type s) (el_type t) of
                     None \<Rightarrow> push
                   | Some allowed \<Rightarrow> if rel_type r \<in> set allowed then errors else push)))"

definition validate :: "BaseElement list \<Rightarrow> Relationship list \<Rightarrow> ValidationError list" where
  "validate elements relationships =
     foldl (validate_step (elementMap elements)) [] relationships"

text \<open>
  The words of the specification, for comparison with \<open>validate\<close>: an id resolves when some
  input element carries it, and a resolvable relationship is to be reported when the matrix
  has no entry for the ordered pair of types or the entry does not list the relationship
  type.  With several elements of one id, the element an id stands for is the last of them.
\<close>

definition resolves :: "BaseElement list \<Rightarrow> string \<Rightarrow> bool" where
  "resolves elements i = (i \<in> el_id ` set elements)"

definition resolve :: "BaseElement list \<Rightarrow> string \<Rightarrow> BaseElement option" where
  "resolve elements i = find (\<lambda>e. el_id e = i) (rev elements)"

definition permitted :: "ElementType \<Rightarrow> ElementType \<Rightarrow> RelationshipType \<Rightarrow> bool" where
  "permitted st tt rt =
     (case allowedRelationships st tt of None \<Rightarrow> False | Some allowed \<Rightarrow> rt \<in> set allowed)"

definition reported :: "BaseElement list \<Rightarrow> Relationship \<Rightarrow> bool" where
  "reported elements r =
     (case resolve elements (rel_source r) of
        None \<Rightarrow> False
      | Some s \<Rightarrow>
          (case resolve elements (rel_target r) of
             None \<Rightarrow> False
           | Some t \<Rightarrow> \<not> permitted (el_type s) (el_type t) (rel_type r)))"


section \<open>Numbers\<close>

text \<open>
  A JavaScript \<^verbatim>\<open>number\<close> is an IEEE 754 binary64 value.  It is modelled as the real it
  denotes, and every arithmetic operation of the code as the exact operation followed by
  \<open>toDouble\<close>, the rounding to the nearest double: 53 significant bits, ties to the even
  significand, and the fixed spacing $2^{-1074}$ of the subnormal range below $2^{-1022}$.
  Results of magnitude $2^{1024}$ and more, which the code turns into \<^verbatim>\<open>Infinity\<close>, and
  \<^verbatim>\<open>NaN\<close> have no counterpart here.  \<^verbatim>\<open>Math.max\<close> and the comparisons are exact and are
  the ones of the reals.  \<^verbatim>\<open>Math.sqrt\<close> and \<^verbatim>\<open>Math.pow\<close> with exponent 2 are taken as
  correctly rounded, which is how the engines compute them.
\<close>

definition round_half_even :: "real \<Rightarrow> int" where
  "round_half_even y =
     (let f = \<lfloor>y\<rfloor>
      in if y - of_int f < 1 / 2 then f
         else if 1 / 2 < y - of_int f then f + 1
         else if even f then f else f + 1)"

text \<open>The binary exponent that fixes the spacing of the doubles around \<open>x\<close>.\<close>

definition binade :: "real \<Rightarrow> int" where
  "binade x = max \<lfloor>log 2 \<bar>x\<bar>\<rfloor> (- 1022)"

definition toDouble :: "real \<Rightarrow> real" where
  "toDouble x =
     (if x = 0 then 0
      else 2 powr (of_int (binade x - 52))
             * of_int (round_half_even (x / 2 powr (of_int (binade x - 52)))))"

text \<open>
  \<^verbatim>\<open>a + b\<close>, \<^verbatim>\<open>a - b\<close>, \<^verbatim>\<open>a * b\<close>, \<^verbatim>\<open>a / b\<close>, \<^verbatim>\<open>Math.sqrt(a)\<close> and \<^verbatim>\<open>Math.pow(a, 2)\<close>.
\<close>

definition js_add :: "real \<Rightarrow> real \<Rightarrow> real" where
  "js_add a b = toDouble (a + b)"

definition js_sub :: "real \<Rightarrow> real \<Rightarrow> real" where
  "js_sub a b = toDouble (a - b)"

definition js_mul :: "real \<Rightarrow> real \<Rightarrow> real" where
  "js_mul a b = toDouble (a * b)"

definition js_div :: "real \<Rightarrow> real \<Rightarrow> real" where
  "js_div a b = toDouble (a / b)"

definition js_sqrt :: "real \<Rightarrow> real" where
  "js_sqrt a = toDouble (sqrt a)"

definition js_square :: "real \<Rightarrow> real" where
  "js_square a = toDouble (a * a)"


section \<open>Layout engine\<close>

text \<open>
  The records of \<^verbatim>\<open>layout-engine.ts\<close>.  A field of type \<^verbatim>\<open>number\<close> holds the real that
  the double denotes; the arithmetic of the engine is the rounded arithmetic of the section
  on numbers.
\<close>

record Position =
  pos_x :: real
  pos_y :: real

record ElementDimensions =
  width :: real
  height :: real

record LayoutConfiguration =
  gridSpacing :: real
  layerVerticalSpacing :: real
  elementSpacing :: real
  defaultElementSize :: ElementDimensions
  layerOrder :: "Layer list"
  viewportPadding :: real

record LayoutResult =
  elementPositions :: "string \<rightharpoonup> Position"
  elementDimensions :: "string \<rightharpoonup> ElementDimensions"
  viewportSize :: ElementDimensions

text \<open>The configuration the constructor builds when it is given no overrides.\<close>

definition defaultConfiguration :: LayoutConfiguration where
  "defaultConfiguration =
     \<lparr>gridSpacing = 20, layerVerticalSpacing = 120, elementSpacing = 180,
      defaultElementSize = \<lparr>width = 120, height = 55\<rparr>,
      layerOrder = [MOTIVATION, STRATEGY, BUSINESS, APPLICATION, TECHNOLOGY, PHYSICAL,
                    IMPLEMENTATION],
      viewportPadding = 60\<rparr>"

text \<open>The \<^verbatim>\<open>typeAdjustments\<close> table of \<^verbatim>\<open>getElementDimensions\<close>, keyed by the type's string.\<close>

definition typeAdjustments :: "ElementType \<rightharpoonup> ElementDimensions" where
  "typeAdjustments =
     [BUSINESS_ACTOR \<mapsto> \<lparr>width = 140, height = 60\<rparr>,
      BUSINESS_PROCESS \<mapsto> \<lparr>width = 160, height = 60\<rparr>,
      APPLICATION_COMPONENT \<mapsto> \<lparr>width = 150, height = 70\<rparr>,
      APPLICATION_SERVICE \<mapsto> \<lparr>width = 140, height = 60\<rparr>,
      DATA_OBJECT \<mapsto> \<lparr>width = 100, height = 50\<rparr>,
      NODE \<mapsto> \<lparr>width = 130, height = 65\<rparr>,
      DEVICE \<mapsto> \<lparr>width = 120, height = 55\<rparr>]"

definition getElementDimensions :: "LayoutConfiguration \<Rightarrow> BaseElement \<Rightarrow> ElementDimensions" where
  "getElementDimensions cfg element =
     (let baseSize = defaultElementSize cfg;
          nameLength = length (el_name element);
          baseSize = (if nameLength > 15
                      then baseSize\<lparr>width := max (width baseSize)
                                                   (js_mul (real nameLength) 8)\<rparr>
                      else baseSize)
      in case typeAdjustments (el_type element) of
           Some typeAdjustment \<Rightarrow>
             \<lparr>width = max (width baseSize) (width typeAdjustment),
              height = max (height baseSize) (height typeAdjustment)\<rparr>
         | None \<Rightarrow> baseSize)"

text \<open>
  \<^verbatim>\<open>groupElementsByLayer\<close>: each element is pushed onto the array stored under its layer,
  which is created on first use.
\<close>

definition groupElementsByLayer :: "BaseElement list \<Rightarrow> (Layer \<rightharpoonup> BaseElement list)" where
  "groupElementsByLayer elements =
     foldl (\<lambda>grouped element.
              grouped(el_layer element \<mapsto>
                (case grouped (el_layer element) of None \<Rightarrow> [] | Some es \<Rightarrow> es) @ [element]))
           Map.empty elements"

text \<open>
  \<^verbatim>\<open>layoutLayer\<close>.  The sort is \<^verbatim>\<open>[...elements].sort((a, b) => a.type.localeCompare(b.type))\<close>:
  a stable sort by the type's string.  \<open>sort_key\<close> is a stable insertion sort, and the
  strings are compared by code unit; on the 59 names of the closed vocabulary that order
  and the case-insensitive-first order of \<^verbatim>\<open>localeCompare\<close> agree, because two names first
  differ at letters of the same case.
\<close>

record LayerLayout =
  layer_positions :: "string \<rightharpoonup> Position"
  layer_dimensions :: "string \<rightharpoonup> ElementDimensions"
  nextY :: real
  maxX :: real

record LayerLoop =
  ll_positions :: "string \<rightharpoonup> Position"
  ll_dimensions :: "string \<rightharpoonup> ElementDimensions"
  currentX :: real
  maxHeight :: real

definition layoutLayer_step :: "LayoutConfiguration \<Rightarrow> real \<Rightarrow> LayerLoop \<Rightarrow> BaseElement \<Rightarrow> LayerLoop" where
  "layoutLayer_step cfg startY st element =
     (let elementDims = getElementDimensions cfg element
      in \<lparr>ll_positions = (ll_positions st)(el_id element \<mapsto> \<lparr>pos_x = currentX st, pos_y = startY\<rparr>),
          ll_dimensions = (ll_dimensions st)(el_id element \<mapsto> elementDims),
          currentX = js_add (currentX st) (js_add (width elementDims) (elementSpacing cfg)),
          maxHeight = max (maxHeight st) (height elementDims)\<rparr>)"

definition layoutLayer :: "LayoutConfiguration \<Rightarrow> BaseElement list \<Rightarrow> real \<Rightarrow> LayerLayout" where
  "layoutLayer cfg elements startY =
     (let sortedElements = sort_key (\<lambda>e. element_type_name (el_type e)) elements;
          st = foldl (layoutLayer_step cfg startY)
                 \<lparr>ll_positions = Map.empty, ll_dimensions = Map.empty,
                  currentX = viewportPadding cfg, maxHeight = 0\<rparr>
                 sortedElements
      in \<lparr>layer_positions = ll_positions st,
          layer_dimensions = ll_dimensions st,
          nextY = js_add (js_add startY (maxHeight st)) (layerVerticalSpacing cfg),
          maxX = js_sub (currentX st) (elementSpacing cfg)\<rparr>)"

text \<open>
  \<^verbatim>\<open>generateLayout\<close>.  The loop state is the two result maps, \<^verbatim>\<open>currentY\<close> and
  \<^verbatim>\<open>maxWidth\<close>; copying a layer's entries into a result map one \<^verbatim>\<open>set\<close> at a time is
  map override \<open>++\<close>.  The \<^verbatim>\<open>relationships\<close> argument is not read.
\<close>

record LayoutLoop =
  lo_positions :: "string \<rightharpoonup> Position"
  lo_dimensions :: "string \<rightharpoonup> ElementDimensions"
  currentY :: real
  maxWidth :: real

definition generateLayout_step ::
  "LayoutConfiguration \<Rightarrow> (Layer \<rightharpoonup> BaseElement list) \<Rightarrow> LayoutLoop \<Rightarrow> Layer \<Rightarrow> LayoutLoop" where
  "generateLayout_step cfg elementsByLayer st layer =
     (let layerElements = (case elementsByLayer layer of None \<Rightarrow> [] | Some es \<Rightarrow> es)
      in if length layerElements = 0 then st
         else
           (let layerLayout = layoutLayer cfg layerElements (currentY st)
            in \<lparr>lo_positions = lo_positions st ++ layer_positions layerLayout,
                lo_dimensions = lo_dimensions st ++ layer_dimensions layerLayout,
                currentY = nextY layerLayout,
                maxWidth = max (maxWidth st) (maxX layerLayout)\<rparr>))"

definition generateLayout ::
  "LayoutConfiguration \<Rightarrow> BaseElement list \<Rightarrow> Relationship list \<Rightarrow> LayoutResult" where
  "generateLayout cfg elements relationships =
     (let elementsByLayer = groupElementsByLayer elements;
          st = foldl (generateLayout_step cfg elementsByLayer)
                 \<lparr>lo_positions = Map.empty, lo_dimensions = Map.empty,
                  currentY = viewportPadding cfg, maxWidth = 0\<rparr>
                 (layerOrder cfg)
      in \<lparr>elementPositions = lo_positions st,
          elementDimensions = lo_dimensions st,
          viewportSize = \<lparr>width = js_add (maxWidth st) (viewportPadding cfg),
                          height = js_add (currentY st) (viewportPadding cfg)\<rparr>\<rparr>)"

text \<open>
  \<^verbatim>\<open>buildConnectionMap\<close> and \<^verbatim>\<open>optimizeForConnections\<close>; the latter returns
  \<^verbatim>\<open>new Map(positions)\<close>, a map with the entries of \<^verbatim>\<open>positions\<close>.
\<close>

definition buildConnectionMap :: "Relationship list \<Rightarrow> (string \<rightharpoonup> string set)" where
  "buildConnectionMap relationships =
     foldl (\<lambda>connections rel.
              (let c1 = (if connections (rel_source rel) = None
                         then connections(rel_source rel \<mapsto> {}) else connections);
                   c2 = (if c1 (rel_target rel) = None
                         then c1(rel_target rel \<mapsto> {}) else c1);
                   c3 = c2(rel_source rel \<mapsto> insert (rel_target rel) (the (c2 (rel_source rel))))
               in c3(rel_target rel \<mapsto> insert (rel_source rel) (the (c3 (rel_target rel))))))
           Map.empty relationships"

definition optimizeForConnections ::
  "(string \<rightharpoonup> Position) \<Rightarrow> (string \<rightharpoonup> string set) \<Rightarrow> (string \<rightharpoonup> ElementDimensions)
     \<Rightarrow> (string \<rightharpoonup> Position)" where
  "optimizeForConnections positions connections dimensions = positions"

definition generateRelationshipAwareLayout ::
  "LayoutConfiguration \<Rightarrow> BaseElement list \<Rightarrow> Relationship list \<Rightarrow> LayoutResult" where
  "generateRelationshipAwareLayout cfg elements relationships =
     (let basicLayout = generateLayout cfg elements relationships;
          connectionMap = buildConnectionMap relationships;
          optimizedPositions = optimizeForConnections (elementPositions basicLayout)
                                 connectionMap (elementDimensions basicLayout)
      in basicLayout\<lparr>elementPositions := optimizedPositions\<rparr>)"

text \<open>
  The canonical order of the specification, as a rank, for stating that one layer precedes
  another.
\<close>

fun layer_rank :: "Layer \<Rightarrow> nat" where
  "layer_rank MOTIVATION = 0"
| "layer_rank STRATEGY = 1"
| "layer_rank BUSINESS = 2"
| "layer_rank APPLICATION = 3"
| "layer_rank TECHNOLOGY = 4"
| "layer_rank PHYSICAL = 5"
| "layer_rank IMPLEMENTATION = 6"

definition canonicalOrder :: "Layer list" where
  "canonicalOrder = [MOTIVATION, STRATEGY, BUSINESS, APPLICATION, TECHNOLOGY, PHYSICAL,
                     IMPLEMENTATION]"

text \<open>The ids carried by the elements of one layer.\<close>

definition layer_ids :: "BaseElement list \<Rightarrow> Layer \<Rightarrow> string set" where
  "layer_ids es l = el_id ` set (filter (\<lambda>e. el_layer e = l) es)"


text \<open>
  A configuration whose row arithmetic is exact: the padding, the inter-layer spacing and
  the default height are integers of magnitude at most $2^{40}$.  \<open>row_invariant n\<close> is
  what then holds of the loop of \<open>generateLayout\<close> after \<open>n\<close> layers.
\<close>

definition integral_rows :: "LayoutConfiguration \<Rightarrow> bool" where
  "integral_rows cfg \<longleftrightarrow>
     viewportPadding cfg \<in> \<int> \<and> \<bar>viewportPadding cfg\<bar> \<le> 2 ^ 40
     \<and> layerVerticalSpacing cfg \<in> \<int> \<and> \<bar>layerVerticalSpacing cfg\<bar> \<le> 2 ^ 40
     \<and> height (defaultElementSize cfg) \<in> \<int> \<and> \<bar>height (defaultElementSize cfg)\<bar> \<le> 2 ^ 40"

definition row_invariant :: "nat \<Rightarrow> LayoutLoop \<Rightarrow> bool" where
  "row_invariant n st \<longleftrightarrow>
     currentY st \<in> \<int> \<and> \<bar>currentY st\<bar> \<le> real (2 * n + 1) * 2 ^ 40"


section \<open>Errors\<close>

text \<open>A thrown \<^verbatim>\<open>Error\<close>; the argument is its \<^verbatim>\<open>message\<close>.\<close>

datatype Error = Error string

fun error_message :: "Error \<Rightarrow> string" where
  "error_message (Error m) = m"

section \<open>View generator\<close>

record ColorMapping =
  fillColor :: string
  lineColor :: string
  textColor :: string

text \<open>A \<^verbatim>\<open>ColorTheme\<close> is its \<^verbatim>\<open>colorMappings\<close> map.\<close>

type_synonym ColorTheme = "ElementType \<rightharpoonup> ColorMapping"

definition getColorsForElement :: "ColorTheme \<Rightarrow> ElementType \<Rightarrow> ColorMapping" where
  "getColorsForElement theme elementType =
     (case theme elementType of
        Some colors \<Rightarrow> colors
      | None \<Rightarrow> \<lparr>fillColor = ''#FFFFFF'', lineColor = ''#000000'', textColor = ''#000000''\<rparr>)"

record VisualElement =
  ve_id :: string
  elementRef :: string
  ve_x :: real
  ve_y :: real
  ve_width :: real
  ve_height :: real
  ve_fillColor :: string
  ve_lineColor :: string
  ve_textColor :: string

record VisualConnection =
  vc_id :: string
  relationshipRef :: string
  vc_source :: string
  vc_target :: string
  vc_lineColor :: string
  lineWidth :: real
  bendpoints :: "Position list option"

text \<open>
  \<^verbatim>\<open>createVisualElements\<close>: one shape per array element; \<^verbatim>\<open>get(...) || default\<close> falls
  back when the layout has no entry for the id.
\<close>

definition createVisualElement :: "ColorTheme \<Rightarrow> LayoutResult \<Rightarrow> BaseElement \<Rightarrow> VisualElement" where
  "createVisualElement theme layoutResult element =
     (let position = (case elementPositions layoutResult (el_id element) of
                        Some p \<Rightarrow> p | None \<Rightarrow> \<lparr>pos_x = 100, pos_y = 100\<rparr>);
          dims = (case elementDimensions layoutResult (el_id element) of
                    Some d \<Rightarrow> d | None \<Rightarrow> \<lparr>width = 120, height = 55\<rparr>);
          colors = getColorsForElement theme (el_type element)
      in \<lparr>ve_id = ''visual-'' @ el_id element,
          elementRef = el_id element,
          ve_x = pos_x position,
          ve_y = pos_y position,
          ve_width = width dims,
          ve_height = height dims,
          ve_fillColor = fillColor colors,
          ve_lineColor = lineColor colors,
          ve_textColor = textColor colors\<rparr>)"

definition createVisualElements ::
  "ColorTheme \<Rightarrow> BaseElement list \<Rightarrow> LayoutResult \<Rightarrow> VisualElement list" where
  "createVisualElements theme elements layoutResult =
     map (createVisualElement theme layoutResult) elements"

text \<open>\<^verbatim>\<open>calculateBendpoints\<close>, in the rounded arithmetic; \<^verbatim>\<open>undefined\<close> is \<open>None\<close>.\<close>

definition calculateBendpoints :: "VisualElement \<Rightarrow> VisualElement \<Rightarrow> Position list option" where
  "calculateBendpoints src tgt =
     (let sourceCenter = \<lparr>pos_x = js_add (ve_x src) (js_div (ve_width src) 2),
                          pos_y = js_add (ve_y src) (js_div (ve_height src) 2)\<rparr>;
          targetCenter = \<lparr>pos_x = js_add (ve_x tgt) (js_div (ve_width tgt) 2),
                          pos_y = js_add (ve_y tgt) (js_div (ve_height tgt) 2)\<rparr>;
          distance = js_sqrt
                       (js_add (js_square (js_sub (pos_x targetCenter) (pos_x sourceCenter)))
                               (js_square (js_sub (pos_y targetCenter) (pos_y sourceCenter))))
      in if distance > 200
         then Some [\<lparr>pos_x = js_div (js_add (pos_x sourceCenter) (pos_x targetCenter)) 2,
                     pos_y = js_div (js_add (pos_y sourceCenter) (pos_y targetCenter)) 2\<rparr>]
         else None)"

text \<open>
  \<^verbatim>\<open>createVisualConnections\<close>: the shapes are entered into a map under \<^verbatim>\<open>elementRef\<close>
  (a later shape replaces an earlier one of the same key); \<^verbatim>\<open>relationships.map\<close> then
  builds the connections in order and the first relationship with a missing end throws.
\<close>

definition visualElementMap :: "VisualElement list \<Rightarrow> (string \<rightharpoonup> VisualElement)" where
  "visualElementMap visualElements =
     foldl (\<lambda>m ve. m(elementRef ve \<mapsto> ve)) Map.empty visualElements"

definition visualConnection :: "Relationship \<Rightarrow> VisualElement \<Rightarrow> VisualElement \<Rightarrow> VisualConnection" where
  "visualConnection r sourceVisual targetVisual =
     \<lparr>vc_id = ''connection-'' @ rel_id r,
      relationshipRef = rel_id r,
      vc_source = ve_id sourceVisual,
      vc_target = ve_id targetVisual,
      vc_lineColor = ''#000000'',
      lineWidth = 1,
      bendpoints = calculateBendpoints sourceVisual targetVisual\<rparr>"

fun connectAll :: "(string \<rightharpoonup> VisualElement) \<Rightarrow> Relationship list \<Rightarrow> Error + VisualConnection list" where
  "connectAll m [] = Inr []"
| "connectAll m (r # rs) =
     (case m (rel_source r) of
        None \<Rightarrow> Inl (Error (''Missing visual elements for relationship '' @ rel_id r))
      | Some sourceVisual \<Rightarrow>
          (case m (rel_target r) of
             None \<Rightarrow> Inl (Error (''Missing visual elements for relationship '' @ rel_id r))
           | Some targetVisual \<Rightarrow>
               (case connectAll m rs of
                  Inl e \<Rightarrow> Inl e
                | Inr cs \<Rightarrow> Inr (visualConnection r sourceVisual targetVisual # cs))))"

definition createVisualConnections ::
  "Relationship list \<Rightarrow> VisualElement list \<Rightarrow> Error + VisualConnection list" where
  "createVisualConnections relationships visualElements =
     connectAll (visualElementMap visualElements) relationships"

text \<open>
  The first three steps of \<^verbatim>\<open>generateViewXml\<close>: layout, shapes, connections.  The
  rendering into the XML templates that follows them is not modelled.
\<close>

definition generateViewShapes ::
  "LayoutConfiguration \<Rightarrow> ColorTheme \<Rightarrow> BaseElement list \<Rightarrow> Relationship list
     \<Rightarrow> Error + (VisualElement list \<times> VisualConnection list)" where
  "generateViewShapes cfg theme elements relationships =
     (let layoutResult = generateLayout cfg elements relationships;
          visualElements = createVisualElements theme elements layoutResult
      in case createVisualConnections relationships visualElements of
           Inl e \<Rightarrow> Inl e
         | Inr visualConnections \<Rightarrow> Inr (visualElements, visualConnections))"

text \<open>
  The words of the specification about routing, over the reals: the centre of a shape, the
  Euclidean distance between two centres, and the midpoint of the segment between them.
  \<open>integral_shape\<close> says that the position and the size of a shape are integers of
  magnitude at most $2^{20}$; the default configuration gives such shapes as long as no row
  grows wider than that.
\<close>

definition center :: "VisualElement \<Rightarrow> Position" where
  "center ve = \<lparr>pos_x = ve_x ve + ve_width ve / 2, pos_y = ve_y ve + ve_height ve / 2\<rparr>"

definition euclidean_distance :: "Position \<Rightarrow> Position \<Rightarrow> real" where
  "euclidean_distance p q = sqrt ((pos_x q - pos_x p)\<^sup>2 + (pos_y q - pos_y p)\<^sup>2)"

definition midpoint :: "Position \<Rightarrow> Position \<Rightarrow> Position" where
  "midpoint p q = \<lparr>pos_x = (pos_x p + pos_x q) / 2, pos_y = (pos_y p + pos_y q) / 2\<rparr>"

text \<open>A relationship one of whose ends is the id of no input element.\<close>

definition dangling :: "BaseElement list \<Rightarrow> Relationship \<Rightarrow> bool" where
  "dangling elements r = (\<not> resolves elements (rel_source r) \<or> \<not> resolves elements (rel_target r))"

definition integral_shape :: "VisualElement \<Rightarrow> bool" where
  "integral_shape ve \<longleftrightarrow>
     ve_x ve \<in> \<int> \<and> \<bar>ve_x ve\<bar> \<le> 2 ^ 20 \<and> ve_y ve \<in> \<int> \<and> \<bar>ve_y ve\<bar> \<le> 2 ^ 20
     \<and> ve_width ve \<in> \<int> \<and> \<bar>ve_width ve\<bar> \<le> 2 ^ 20
     \<and> ve_height ve \<in> \<int> \<and> \<bar>ve_height ve\<bar> \<le> 2 ^ 20"


section \<open>XML escaping\<close>

text \<open>
  \<^verbatim>\<open>text.replace(/&/g, '&amp;')\<close> and its four successors: a global replacement of one
  character by a fixed string (none of the replacement strings contains a \<^verbatim>\<open>$\<close>, so each
  is inserted literally).  \<^verbatim>\<open>escapeXml\<close> of the element generator and of the relationship
  generator are the same five passes in the same order.
\<close>

definition replaceAllChar :: "char \<Rightarrow> string \<Rightarrow> string \<Rightarrow> string" where
  "replaceAllChar c replacement text = concat (map (\<lambda>d. if d = c then replacement else [d]) text)"

definition escapeXml :: "string \<Rightarrow> string" where
  "escapeXml text =
     replaceAllChar (CHR 0x27) ''&#39;''
       (replaceAllChar (CHR 0x22) ''&quot;''
         (replaceAllChar CHR ''>'' ''&gt;''
           (replaceAllChar CHR ''<'' ''&lt;''
             (replaceAllChar CHR ''&'' ''&amp;'' text))))"

text \<open>
  Standard XML entity decoding, for comparison with \<open>escapeXml\<close>: the five predefined
  entities and decimal and hexadecimal character references.  The decoder is strict: an
  ampersand that does not begin a reference, or a \<^verbatim>\<open><\<close>, is rejected (\<open>None\<close>), as a
  conforming parser rejects it in character data and attribute values.  A character is
  one of the 256 values of \<open>char\<close>, so a reference beyond 255 is rejected too.
\<close>

definition digit_value :: "char \<Rightarrow> nat option" where
  "digit_value c =
     (let n = (of_char c :: nat) in if 48 \<le> n \<and> n \<le> 57 then Some (n - 48) else None)"

definition hex_value :: "char \<Rightarrow> nat option" where
  "hex_value c =
     (let n = (of_char c :: nat)
      in if 48 \<le> n \<and> n \<le> 57 then Some (n - 48)
         else if 65 \<le> n \<and> n \<le> 70 then Some (n - 55)
         else if 97 \<le> n \<and> n \<le> 102 then Some (n - 87)
         else None)"

text \<open>
  Reads digits up to the closing semicolon; returns the number read and the count of
  characters consumed (\<open>n\<close> counts those consumed before the call).
\<close>

fun read_digits :: "(char \<Rightarrow> nat option) \<Rightarrow> nat \<Rightarrow> nat \<Rightarrow> nat \<Rightarrow> string \<Rightarrow> (nat \<times> nat) option" where
  "read_digits dv base acc n [] = None"
| "read_digits dv base acc n (c # cs) =
     (if c = CHR '';'' then Some (acc, Suc n)
      else case dv c of
             None \<Rightarrow> None
           | Some d \<Rightarrow> read_digits dv base (acc * base + d) (Suc n) cs)"

text \<open>
  The reference that starts after an ampersand: the character it stands for and the
  number of characters it occupies after the ampersand.
\<close>

definition parse_reference :: "string \<Rightarrow> (char \<times> nat) option" where
  "parse_reference cs =
     (if take 4 cs = ''amp;'' then Some (CHR ''&'', 4)
      else if take 3 cs = ''lt;'' then Some (CHR ''<'', 3)
      else if take 3 cs = ''gt;'' then Some (CHR ''>'', 3)
      else if take 5 cs = ''quot;'' then Some (CHR 0x22, 5)
      else if take 5 cs = ''apos;'' then Some (CHR 0x27, 5)
      else if take 2 cs = ''#x'' then
        (case read_digits hex_value 16 0 2 (drop 2 cs) of
           None \<Rightarrow> None
         | Some (v, n) \<Rightarrow> if 3 < n \<and> 0 < v \<and> v < 256 then Some (char_of v, n) else None)
      else if take 1 cs = ''#'' then
        (case read_digits digit_value 10 0 1 (drop 1 cs) of
           None \<Rightarrow> None
         | Some (v, n) \<Rightarrow> if 2 < n \<and> 0 < v \<and> v < 256 then Some (char_of v, n) else None)
      else None)"

function xml_decode :: "string \<Rightarrow> string option" where
  "xml_decode [] = Some []"
| "xml_decode (c # cs) =
     (if c = CHR ''&'' then
        (case parse_reference cs of
           None \<Rightarrow> None
         | Some (d, n) \<Rightarrow> map_option ((#) d) (xml_decode (drop n cs)))
      else if c = CHR ''<'' then None
      else map_option ((#) c) (xml_decode cs))"
  by pat_completeness auto
termination
  by (relation "measure length") auto

text \<open>What the five passes do to one character.\<close>

definition escape_char :: "char \<Rightarrow> string" where
  "escape_char c =
     (if c = CHR ''&'' then ''&amp;''
      else if c = CHR ''<'' then ''&lt;''
      else if c = CHR ''>'' then ''&gt;''
      else if c = CHR 0x22 then ''&quot;''
      else if c = CHR 0x27 then ''&#39;''
      else [c])"

section \<open>Relationship generator\<close>

text \<open>
  \<^verbatim>\<open>String.prototype.replace\<close> with a string pattern and a string replacement: the first
  occurrence is replaced, and in the replacement \<^verbatim>\<open>$$\<close> stands for a dollar sign,
  \<^verbatim>\<open>$&\<close> for the matched text, \<^verbatim>\<open>$`\<close> for the text before the match and \<^verbatim>\<open>$'\<close> for the
  text after it (a string pattern has no groups, so \<^verbatim>\<open>$1\<close> and \<^verbatim>\<open>$<\<close> stay as written).
\<close>

fun find_split :: "string \<Rightarrow> string \<Rightarrow> (string \<times> string) option" where
  "find_split pat [] = (if pat = [] then Some ([], []) else None)"
| "find_split pat (c # cs) =
     (if take (length pat) (c # cs) = pat then Some ([], drop (length pat) (c # cs))
      else map_option (\<lambda>(before, after). (c # before, after)) (find_split pat cs))"

fun get_substitution :: "string \<Rightarrow> string \<Rightarrow> string \<Rightarrow> string \<Rightarrow> string" where
  "get_substitution matched before after [] = []"
| "get_substitution matched before after [c] = [c]"
| "get_substitution matched before after (c # d # r) =
     (if c = CHR ''$'' \<and> d = CHR ''$'' then CHR ''$'' # get_substitution matched before after r
      else if c = CHR ''$'' \<and> d = CHR ''&'' then matched @ get_substitution matched before after r
      else if c = CHR ''$'' \<and> d = CHR 0x60 then before @ get_substitution matched before after r
      else if c = CHR ''$'' \<and> d = CHR 0x27 then after @ get_substitution matched before after r
      else c # get_substitution matched before after (d # r))"

definition js_replace :: "string \<Rightarrow> string \<Rightarrow> string \<Rightarrow> string" where
  "js_replace pat replacement text =
     (case find_split pat text of
        None \<Rightarrow> text
      | Some (before, after) \<Rightarrow>
          before @ get_substitution pat before after replacement @ after)"

text \<open>
  \<^verbatim>\<open>loadTemplate\<close>.  \<open>readFileSync\<close> stands for the file system: for a template name it
  gives the file's text or the error the read throws.
\<close>

definition loadTemplate :: "(string \<Rightarrow> Error + string) \<Rightarrow> string \<Rightarrow> Error + string" where
  "loadTemplate readFileSync templateName =
     (case readFileSync templateName of
        Inr text \<Rightarrow> Inr text
      | Inl error \<Rightarrow>
          Inl (Error (''Failed to load template '' @ templateName @ '': Error: ''
                        @ error_message error)))"

record RelationshipGenerationOptions =
  includeNames :: bool
  validateReferences :: bool
  groupByType :: bool
  includeDocumentation :: bool

fun getRelationshipVerb :: "RelationshipType \<Rightarrow> string" where
  "getRelationshipVerb COMPOSITION = ''composes''"
| "getRelationshipVerb AGGREGATION = ''aggregates''"
| "getRelationshipVerb ASSIGNMENT = ''is assigned to''"
| "getRelationshipVerb REALIZATION = ''realizes''"
| "getRelationshipVerb SERVING = ''serves''"
| "getRelationshipVerb ACCESS = ''accesses''"
| "getRelationshipVerb INFLUENCE = ''influences''"
| "getRelationshipVerb TRIGGERING = ''triggers''"
| "getRelationshipVerb FLOW = ''flows to''"
| "getRelationshipVerb SPECIALIZATION = ''specializes''"
| "getRelationshipVerb ASSOCIATION = ''associates with''"
| "getRelationshipVerb JUNCTION = ''joins with''"

definition generateRelationshipName ::
  "Relationship \<Rightarrow> RelationshipGenerationOptions \<Rightarrow> BaseElement list option \<Rightarrow> string" where
  "generateRelationshipName r options elements =
     (let fallback = relationship_type_name (rel_type r) @ '' relationship''
      in if \<not> includeNames options then []
         else
           (case elements of
              None \<Rightarrow> fallback
            | Some es \<Rightarrow>
                (case find (\<lambda>e. el_id e = rel_source r) es of
                   None \<Rightarrow> fallback
                 | Some sourceElement \<Rightarrow>
                     (case find (\<lambda>e. el_id e = rel_target r) es of
                        None \<Rightarrow> fallback
                      | Some targetElement \<Rightarrow>
                          el_name sourceElement @ '' '' @ getRelationshipVerb (rel_type r)
                            @ '' '' @ el_name targetElement))))"

text \<open>\<^verbatim>\<open>validateRelationshipReferences\<close>: the source is checked before the target.\<close>

definition validateRelationshipReferences :: "Relationship \<Rightarrow> BaseElement list \<Rightarrow> Error + unit" where
  "validateRelationshipReferences r elements =
     (let elementIds = set (map el_id elements)
      in if rel_source r \<notin> elementIds then
           Inl (Error (''Relationship '' @ rel_id r @ '' references non-existent source element: ''
                         @ rel_source r))
         else if rel_target r \<notin> elementIds then
           Inl (Error (''Relationship '' @ rel_id r @ '' references non-existent target element: ''
                         @ rel_target r))
         else Inr ())"

text \<open>
  \<^verbatim>\<open>generateRelationship\<close>.  The element set is optional (\<open>None\<close> when the caller passes
  none); an empty array is still an array, so references are validated against it.
\<close>

definition renderRelationship :: "string \<Rightarrow> Relationship \<Rightarrow> string \<Rightarrow> string" where
  "renderRelationship template r relationshipName =
     js_replace ''{{TARGET_ID}}'' (escapeXml (rel_target r))
       (js_replace ''{{SOURCE_ID}}'' (escapeXml (rel_source r))
         (js_replace ''{{RELATIONSHIP_ID}}'' (escapeXml (rel_id r))
           (js_replace ''{{RELATIONSHIP_NAME}}'' (escapeXml relationshipName)
             (js_replace ''{{RELATIONSHIP_TYPE}}'' (relationship_type_name (rel_type r))
                template))))"

definition generateRelationship ::
  "(string \<Rightarrow> Error + string) \<Rightarrow> Relationship \<Rightarrow> RelationshipGenerationOptions
     \<Rightarrow> BaseElement list option \<Rightarrow> Error + string" where
  "generateRelationship readFileSync r options elements =
     (case loadTemplate readFileSync ''relationship-template.xml'' of
        Inl e \<Rightarrow> Inl e
      | Inr template \<Rightarrow>
          (case (case elements of
                   Some es \<Rightarrow>
                     if validateReferences options then validateRelationshipReferences r es
                     else Inr ()
                 | None \<Rightarrow> Inr ()) of
             Inl e \<Rightarrow> Inl e
           | Inr u \<Rightarrow>
               Inr (renderRelationship template r
                      (generateRelationshipName r options elements))))"


section \<open>Color themes\<close>

text \<open>
  \<^verbatim>\<open>ColorTheme.DEFAULT_COLORS\<close> and the three preset themes.  The constructor loads the
  defaults and then applies the overrides; the monochrome and high-contrast presets override
  every member of \<^verbatim>\<open>ElementType\<close>.
\<close>

definition DEFAULT_COLORS :: ColorTheme where
  "DEFAULT_COLORS elementType =
     (if elementType \<in> set
           [STAKEHOLDER, DRIVER, ASSESSMENT, GOAL, OUTCOME, PRINCIPLE,
            REQUIREMENT, CONSTRAINT]
      then Some \<lparr>fillColor = ''#E6D3FF'', lineColor = ''#8B66CC'', textColor = ''#000000''\<rparr>
      else if elementType \<in> set
           [RESOURCE, CAPABILITY, VALUE_STREAM, COURSE_OF_ACTION]
      then Some \<lparr>fillColor = ''#D1E7FF'', lineColor = ''#5B9BD5'', textColor = ''#000000''\<rparr>
      else if elementType \<in> set
           [BUSINESS_ACTOR, BUSINESS_ROLE, BUSINESS_COLLABORATION,
            BUSINESS_INTERFACE, BUSINESS_PROCESS, BUSINESS_FUNCTION,
            BUSINESS_INTERACTION, BUSINESS_EVENT, BUSINESS_SERVICE,
            BUSINESS_OBJECT, CONTRACT, REPRESENTATION, PRODUCT]
      then Some \<lparr>fillColor = ''#FFFACD'', lineColor = ''#FFD700'', textColor = ''#000000''\<rparr>
      else if elementType \<in> set
           [APPLICATION_COMPONENT, APPLICATION_COLLABORATION,
            APPLICATION_INTERFACE, APPLICATION_FUNCTION,
            APPLICATION_INTERACTION, APPLICATION_PROCESS, APPLICATION_EVENT,
            APPLICATION_SERVICE, DATA_OBJECT]
      then Some \<lparr>fillColor = ''#E6FFE6'', lineColor = ''#70AD47'', textColor = ''#000000''\<rparr>
      else if elementType \<in> set
           [NODE, DEVICE, SYSTEM_SOFTWARE, TECHNOLOGY_COLLABORATION,
            TECHNOLOGY_INTERFACE, TECHNOLOGY_FUNCTION, TECHNOLOGY_PROCESS,
            TECHNOLOGY_INTERACTION, TECHNOLOGY_EVENT, TECHNOLOGY_SERVICE,
            PATH, COMMUNICATION_NETWORK, ARTIFACT]
      then Some \<lparr>fillColor = ''#FFE6CC'', lineColor = ''#C5504B'', textColor = ''#000000''\<rparr>
      else if elementType \<in> set
           [EQUIPMENT, FACILITY, DISTRIBUTION_NETWORK, MATERIAL]
      then Some \<lparr>fillColor = ''#F2F2F2'', lineColor = ''#7F7F7F'', textColor = ''#000000''\<rparr>
      else if elementType \<in> set
           [WORK_PACKAGE, DELIVERABLE, IMPLEMENTATION_EVENT, PLATEAU, GAP]
      then Some \<lparr>fillColor = ''#FFCCCB'', lineColor = ''#FF6B6B'', textColor = ''#000000''\<rparr>
      else None)"

definition createArchiMateTheme :: ColorTheme where
  "createArchiMateTheme = DEFAULT_COLORS"

definition createMonochromeTheme :: ColorTheme where
  "createMonochromeTheme =
     (\<lambda>elementType. Some \<lparr>fillColor = ''#F5F5F5'', lineColor = ''#333333'',
                           textColor = ''#000000''\<rparr>)"

definition createHighContrastTheme :: ColorTheme where
  "createHighContrastTheme =
     (\<lambda>elementType. Some \<lparr>fillColor = ''#FFFFFF'', lineColor = ''#000000'',
                           textColor = ''#000000''\<rparr>)"

section \<open>Exporter\<close>

subsection \<open>Strings\<close>

text \<open>
  \<^verbatim>\<open>Array.prototype.join\<close>, a number inside a template literal, and
  \<^verbatim>\<open>String.prototype.trim\<close> (the white space among the 256 values of \<open>char\<close>: tab, line
  feed, vertical tab, form feed, carriage return, space and no-break space).
\<close>

fun join :: "string \<Rightarrow> string list \<Rightarrow> string" where
  "join sep [] = []"
| "join sep [x] = x"
| "join sep (x # y # ys) = x @ sep @ join sep (y # ys)"

fun show_nat :: "nat \<Rightarrow> string" where
  "show_nat n =
     (if n < 10 then [''0123456789'' ! n]
      else show_nat (n div 10) @ [''0123456789'' ! (n mod 10)])"

declare show_nat.simps [simp del]

definition is_whitespace :: "char \<Rightarrow> bool" where
  "is_whitespace c = (c \<in> set [CHR 0x09, CHR 0x0A, CHR 0x0B, CHR 0x0C, CHR 0x0D, CHR 0x20, CHR 0xA0])"

definition trim :: "string \<Rightarrow> string" where
  "trim s = rev (dropWhile is_whitespace (rev (dropWhile is_whitespace s)))"

subsection \<open>Pre-export validation\<close>

text \<open>\<^verbatim>\<open>findOrphanedRelationships\<close> of the relationship generator.\<close>

definition findOrphanedRelationships :: "Relationship list \<Rightarrow> BaseElement list \<Rightarrow> string list" where
  "findOrphanedRelationships relationships elements =
     (let elementIds = set (map el_id elements)
      in foldl (\<lambda>orphaned r.
                  if rel_source r \<notin> elementIds \<or> rel_target r \<notin> elementIds
                  then orphaned @ [rel_id r] else orphaned)
           [] relationships)"

text \<open>
  The duplicate scan that \<^verbatim>\<open>validateModelInputs\<close> runs twice, over the element ids and
  over the relationship ids: a set of the ids seen so far and the array of ids met again.
\<close>

definition duplicateIds :: "string list \<Rightarrow> string list" where
  "duplicateIds ids =
     snd (foldl (\<lambda>(seen, duplicates) i.
                   if i \<in> seen then (seen, duplicates @ [i]) else (insert i seen, duplicates))
            ({}, []) ids)"

record ValidationIssues =
  vi_warnings :: "string list"
  vi_errors :: "string list"

definition validateModelInputs ::
  "BaseElement list \<Rightarrow> Relationship list \<Rightarrow> bool \<Rightarrow> ValidationIssues" where
  "validateModelInputs elements relationships strict =
     (let ws = []; es = [];
          (ws, es) = (if length elements = 0
                      then (if strict then (ws, es @ [''Model contains no elements''])
                            else (ws @ [''Model contains no elements''], es))
                      else (ws, es));
          orphanedRelationships = findOrphanedRelationships relationships elements;
          (ws, es) = (if length orphanedRelationships > 0
                      then (let message = ''Found '' @ show_nat (length orphanedRelationships)
                                            @ '' orphaned relationships: ''
                                            @ join '', '' orphanedRelationships
                            in if strict then (ws, es @ [message]) else (ws @ [message], es))
                      else (ws, es));
          duplicateElementIds = duplicateIds (map el_id elements);
          es = (if length duplicateElementIds > 0
                then es @ [''Duplicate element IDs found: '' @ join '', '' duplicateElementIds]
                else es);
          duplicateRelIds = duplicateIds (map rel_id relationships);
          es = (if length duplicateRelIds > 0
                then es @ [''Duplicate relationship IDs found: '' @ join '', '' duplicateRelIds]
                else es);
          unnamedElements = filter (\<lambda>e. el_name e = [] \<or> trim (el_name e) = []) elements;
          ws = (if length unnamedElements > 0
                then ws @ [''Found '' @ show_nat (length unnamedElements)
                             @ '' elements without names'']
                else ws)
      in \<lparr>vi_warnings = ws, vi_errors = es\<rparr>)"

subsection \<open>Configuration of the visualization\<close>

text \<open>
  A \<^verbatim>\<open>Partial<LayoutConfiguration>\<close> and the constructor of the layout engine, which
  spreads it over the defaults.  A \<^verbatim>\<open>LayoutEngine\<close> is its configuration.
\<close>

record PartialLayoutConfiguration =
  p_gridSpacing :: "real option"
  p_layerVerticalSpacing :: "real option"
  p_elementSpacing :: "real option"
  p_defaultElementSize :: "ElementDimensions option"
  p_layerOrder :: "Layer list option"
  p_viewportPadding :: "real option"

definition newLayoutEngine :: "PartialLayoutConfiguration \<Rightarrow> LayoutConfiguration" where
  "newLayoutEngine config =
     \<lparr>gridSpacing = (case p_gridSpacing config of Some v \<Rightarrow> v | None \<Rightarrow> 20),
      layerVerticalSpacing = (case p_layerVerticalSpacing config of Some v \<Rightarrow> v | None \<Rightarrow> 120),
      elementSpacing = (case p_elementSpacing config of Some v \<Rightarrow> v | None \<Rightarrow> 180),
      defaultElementSize = (case p_defaultElementSize config of
                              Some v \<Rightarrow> v | None \<Rightarrow> \<lparr>width = 120, height = 55\<rparr>),
      layerOrder = (case p_layerOrder config of
                      Some v \<Rightarrow> v
                    | None \<Rightarrow> [MOTIVATION, STRATEGY, BUSINESS, APPLICATION, TECHNOLOGY, PHYSICAL,
                               IMPLEMENTATION]),
      viewportPadding = (case p_viewportPadding config of Some v \<Rightarrow> v | None \<Rightarrow> 60)\<rparr>"

datatype ThemeChoice = ThemeName string | ThemeObject ColorTheme

record ViewXmlGenerator =
  vg_layoutEngine :: LayoutConfiguration
  vg_colorTheme :: ColorTheme

record XmlExporter =
  colorTheme :: ColorTheme
  layoutEngine :: LayoutConfiguration
  viewGenerator :: ViewXmlGenerator

definition setColorTheme :: "XmlExporter \<Rightarrow> ThemeChoice \<Rightarrow> Error + XmlExporter" where
  "setColorTheme exporter theme =
     (case (case theme of
              ThemeName n \<Rightarrow>
                if n = ''archimate'' then Inr createArchiMateTheme
                else if n = ''monochrome'' then Inr createMonochromeTheme
                else if n = ''high-contrast'' then Inr createHighContrastTheme
                else Inl (Error (''Unknown color theme: '' @ n))
            | ThemeObject t \<Rightarrow> Inr t) of
        Inl e \<Rightarrow> Inl e
      | Inr t \<Rightarrow>
          Inr (exporter\<lparr>colorTheme := t,
                         viewGenerator := (viewGenerator exporter)\<lparr>vg_colorTheme := t\<rparr>\<rparr>))"

definition setLayoutConfiguration :: "XmlExporter \<Rightarrow> PartialLayoutConfiguration \<Rightarrow> XmlExporter" where
  "setLayoutConfiguration exporter config =
     exporter\<lparr>layoutEngine := newLayoutEngine config,
              viewGenerator := (viewGenerator exporter)\<lparr>vg_layoutEngine := newLayoutEngine config\<rparr>\<rparr>"

text \<open>
  The options \<^verbatim>\<open>exportModel\<close> reads.  An absent boolean is \<open>False\<close>, except
  \<^verbatim>\<open>includeViews\<close>, which is compared with \<^verbatim>\<open>false\<close> in one place and tested for truth in
  another; \<open>viewName\<close> is \<^verbatim>\<open>viewOptions?.viewName\<close>.
\<close>

record XmlExportOptions =
  modelId :: "string option"
  modelName :: "string option"
  modelPurpose :: "string option"
  includeViews :: "bool option"
  viewName :: "string option"
  opt_colorTheme :: "ThemeChoice option"
  layoutConfiguration :: "PartialLayoutConfiguration option"
  validateModel :: bool
  strictValidation :: bool
  includeStatistics :: bool

definition configureVisualization :: "XmlExporter \<Rightarrow> XmlExportOptions \<Rightarrow> Error + XmlExporter" where
  "configureVisualization exporter options =
     (case (case opt_colorTheme options of
              None \<Rightarrow> Inr exporter
            | Some theme \<Rightarrow>
                if theme = ThemeName [] then Inr exporter else setColorTheme exporter theme) of
        Inl e \<Rightarrow> Inl e
      | Inr exporter1 \<Rightarrow>
          (case layoutConfiguration options of
             None \<Rightarrow> Inr exporter1
           | Some config \<Rightarrow> Inr (setLayoutConfiguration exporter1 config)))"

record ModelExportOptions =
  mo_modelId :: "string option"
  mo_modelName :: "string option"
  mo_modelPurpose :: "string option"
  mo_includeViews :: bool
  mo_viewName :: "string option"
  mo_viewDocumentation :: "string option"

definition buildModelOptions :: "XmlExportOptions \<Rightarrow> ModelExportOptions" where
  "buildModelOptions options =
     \<lparr>mo_modelId = modelId options,
      mo_modelName = modelName options,
      mo_modelPurpose = modelPurpose options,
      mo_includeViews = (includeViews options \<noteq> Some False),
      mo_viewName = viewName options,
      mo_viewDocumentation =
        (case viewName options of
           None \<Rightarrow> None
         | Some n \<Rightarrow> if n = [] then None else Some (''Generated view: '' @ n))\<rparr>"

subsection \<open>Statistics\<close>

text \<open>The counting loop of the statistics: \<^verbatim>\<open>m.set(k, (m.get(k) || 0) + 1)\<close>.\<close>

definition countBy :: "('a \<Rightarrow> 'k) \<Rightarrow> 'a list \<Rightarrow> ('k \<rightharpoonup> nat)" where
  "countBy key xs =
     foldl (\<lambda>m x. m(key x \<mapsto> (case m (key x) of None \<Rightarrow> 0 | Some n \<Rightarrow> n) + 1)) Map.empty xs"

record ViewStatistics =
  elementCount :: nat
  relationshipCount :: nat
  layerDistribution :: "Layer \<rightharpoonup> nat"
  estimatedDimensions :: ElementDimensions

record Statistics =
  elements_total :: nat
  elements_byLayer :: "Layer \<rightharpoonup> nat"
  elements_byType :: "ElementType \<rightharpoonup> nat"
  relationships_total :: nat
  relationships_byType :: "RelationshipType \<rightharpoonup> nat"
  relationships_uniqueElements :: nat
  views :: "ViewStatistics option"

text \<open>
  \<^verbatim>\<open>generateViewStatistics\<close> also calls \<^verbatim>\<open>getLayoutStatistics\<close>, whose result it drops and
  which cannot throw; the call is left out.
\<close>

definition generateViewStatistics ::
  "ViewXmlGenerator \<Rightarrow> BaseElement list \<Rightarrow> Relationship list \<Rightarrow> ViewStatistics" where
  "generateViewStatistics vg elements relationships =
     (let layoutResult = generateLayout (vg_layoutEngine vg) elements relationships
      in \<lparr>elementCount = length elements,
          relationshipCount = length relationships,
          layerDistribution = countBy el_layer elements,
          estimatedDimensions = \<lparr>width = width (viewportSize layoutResult),
                                  height = height (viewportSize layoutResult)\<rparr>\<rparr>)"

definition collectStatistics ::
  "XmlExporter \<Rightarrow> BaseElement list \<Rightarrow> Relationship list \<Rightarrow> XmlExportOptions \<Rightarrow> Statistics" where
  "collectStatistics exporter elements relationships options =
     \<lparr>elements_total = length elements,
      elements_byLayer = countBy el_layer elements,
      elements_byType = countBy el_type elements,
      relationships_total = length relationships,
      relationships_byType = countBy rel_type relationships,
      relationships_uniqueElements =
        length (remdups (concat (map (\<lambda>r. [rel_source r, rel_target r]) relationships))),
      views = (if includeViews options = Some True
               then Some (generateViewStatistics (viewGenerator exporter) elements relationships)
               else None)\<rparr>"

subsection \<open>exportModel\<close>

record XmlExportResult =
  xml :: string
  statistics :: "Statistics option"
  warnings :: "string list"
  errors :: "string list"

text \<open>
  The body of the \<^verbatim>\<open>try\<close> block.  \<open>generate\<close> stands for \<^verbatim>\<open>ModelXmlGenerator.generate\<close>,
  whose source is not part of the files at hand: it returns the document or throws.  A
  throw leaves the block with the error and the \<^verbatim>\<open>result\<close> object as it is at that point.
  The exporter is returned as the call leaves it.
\<close>

definition exportModel_try ::
  "(BaseElement list \<Rightarrow> Relationship list \<Rightarrow> ModelExportOptions \<Rightarrow> Error + string)
     \<Rightarrow> XmlExporter \<Rightarrow> BaseElement list \<Rightarrow> Relationship list \<Rightarrow> XmlExportOptions
     \<Rightarrow> ((Error \<times> XmlExportResult) + XmlExportResult) \<times> XmlExporter" where
  "exportModel_try generate exporter elements relationships options =
     (let result = \<lparr>xml = [], statistics = None, warnings = [], errors = []\<rparr>;
          result = (if validateModel options
                    then (let validationResult = validateModelInputs elements relationships
                                                   (strictValidation options)
                          in result\<lparr>warnings := vi_warnings validationResult,
                                    errors := vi_errors validationResult\<rparr>)
                    else result)
      in if validateModel options \<and> length (errors result) > 0 \<and> strictValidation options
         then (Inl (Error (''Model validation failed: '' @ join '', '' (errors result)), result),
               exporter)
         else
           (case configureVisualization exporter options of
              Inl e \<Rightarrow> (Inl (e, result), exporter)
            | Inr exporter1 \<Rightarrow>
                (case generate elements relationships (buildModelOptions options) of
                   Inl e \<Rightarrow> (Inl (e, result), exporter1)
                 | Inr document \<Rightarrow>
                     (let result = result\<lparr>xml := document\<rparr>;
                          result = (if includeStatistics options
                                    then result\<lparr>statistics :=
                                           Some (collectStatistics exporter1 elements
                                                   relationships options)\<rparr>
                                    else result)
                      in (Inr result, exporter1)))))"

text \<open>
  \<^verbatim>\<open>exportModel\<close>: the \<^verbatim>\<open>catch\<close> block pushes a message onto \<^verbatim>\<open>result.errors\<close> and then
  rethrows the error it caught; the \<^verbatim>\<open>result\<close> object is local to the call.  A rejected
  promise is \<open>Inl\<close>.
\<close>

definition exportModel ::
  "(BaseElement list \<Rightarrow> Relationship list \<Rightarrow> ModelExportOptions \<Rightarrow> Error + string)
     \<Rightarrow> XmlExporter \<Rightarrow> BaseElement list \<Rightarrow> Relationship list \<Rightarrow> XmlExportOptions
     \<Rightarrow> (Error + XmlExportResult) \<times> XmlExporter" where
  "exportModel generate exporter elements relationships options =
     (case exportModel_try generate exporter elements relationships options of
        (Inr result, exporter1) \<Rightarrow> (Inr result, exporter1)
      | (Inl (error, result), exporter1) \<Rightarrow>
          (let result = result\<lparr>errors := errors result
                                  @ [''Export failed: '' @ error_message error]\<rparr>
           in (Inl error, exporter1)))"

text \<open>
  The convenience function \<^verbatim>\<open>exportToXml\<close>: a fresh default exporter, and any entry in
  \<^verbatim>\<open>result.errors\<close> turns into a throw.
\<close>

definition defaultExporter :: XmlExporter where
  "defaultExporter =
     \<lparr>colorTheme = createArchiMateTheme,
      layoutEngine = defaultConfiguration,
      viewGenerator = \<lparr>vg_layoutEngine = defaultConfiguration,
                       vg_colorTheme = createArchiMateTheme\<rparr>\<rparr>"

definition exportToXml ::
  "(BaseElement list \<Rightarrow> Relationship list \<Rightarrow> ModelExportOptions \<Rightarrow> Error + string)
     \<Rightarrow> BaseElement list \<Rightarrow> Relationship list \<Rightarrow> XmlExportOptions \<Rightarrow> Error + string" where
  "exportToXml generate elements relationships options =
     (case fst (exportModel generate defaultExporter elements relationships options) of
        Inl e \<Rightarrow> Inl e
      | Inr result \<Rightarrow>
          if length (errors result) > 0
          then Inl (Error (''Export failed: '' @ join '', '' (errors result)))
          else Inr (xml result))"

text \<open>
  The issues of the pre-export validation, each as the list of messages it contributes
  (empty when the issue is not detected), for stating how they are classified.
\<close>

definition empty_issue :: "BaseElement list \<Rightarrow> string list" where
  "empty_issue elements = (if elements = [] then [''Model contains no elements''] else [])"

definition orphan_issue :: "Relationship list \<Rightarrow> BaseElement list \<Rightarrow> string list" where
  "orphan_issue relationships elements =
     (let orphaned = map rel_id (filter (dangling elements) relationships)
      in if orphaned = [] then []
         else [''Found '' @ show_nat (length orphaned) @ '' orphaned relationships: ''
                 @ join '', '' orphaned])"

definition duplicate_element_issue :: "BaseElement list \<Rightarrow> string list" where
  "duplicate_element_issue elements =
     (if duplicateIds (map el_id elements) = [] then []
      else [''Duplicate element IDs found: '' @ join '', '' (duplicateIds (map el_id elements))])"

definition duplicate_relationship_issue :: "Relationship list \<Rightarrow> string list" where
  "duplicate_relationship_issue relationships =
     (if duplicateIds (map rel_id relationships) = [] then []
      else [''Duplicate relationship IDs found: ''
              @ join '', '' (duplicateIds (map rel_id relationships))])"

definition blank_name_issue :: "BaseElement list \<Rightarrow> string list" where
  "blank_name_issue elements =
     (let unnamed = filter (\<lambda>e. list_all is_whitespace (el_name e)) elements
      in if unnamed = [] then []
         else [''Found '' @ show_nat (length unnamed) @ '' elements without names''])"

section \<open>The layout engine as an object\<close>

text \<open>
  The definitions of the layout above take the configuration as an argument.  In the source
  it is the field \<^verbatim>\<open>config\<close> of the engine, which every method reads through \<^verbatim>\<open>this\<close>, and a
  method could as well read or change anything else that the runtime lets it reach.  Of
  that, this program reads the clock: \<^verbatim>\<open>generateViewXml\<close> names a view after \<^verbatim>\<open>Date.now()\<close>
  when the caller gives no identifier.

  A \<open>World\<close> holds what a call can observe besides its arguments: the field of the engine
  and the clock.  The methods of \<^verbatim>\<open>LayoutEngine\<close> are translated once more, statement by
  statement, as computations of the state monad over worlds, which return a value and the
  world they leave behind.  Every \<^verbatim>\<open>this.config\<close> of the source is a read of the world at
  the place where the source has it; a \<^verbatim>\<open>for ... of\<close> loop is \<open>for_of\<close>, whose body runs in
  the world left by the previous iteration.
\<close>

record World =
  this_config :: LayoutConfiguration
  clock :: nat

definition read_config :: "(World, LayoutConfiguration) state" where
  "read_config = do { w \<leftarrow> State_Monad.get; State_Monad.return (this_config w) }"

definition Date_now :: "(World, nat) state" where
  "Date_now = do { w \<leftarrow> State_Monad.get; State_Monad.return (clock w) }"

fun for_of :: "('a \<Rightarrow> 'b \<Rightarrow> (World, 'b) state) \<Rightarrow> 'a list \<Rightarrow> 'b \<Rightarrow> (World, 'b) state" where
  "for_of body [] st = State_Monad.return st"
| "for_of body (x # xs) st = do { st' \<leftarrow> body x st; for_of body xs st' }"

text \<open>
  \<^verbatim>\<open>getElementDimensions\<close> reads \<^verbatim>\<open>this.config.defaultElementSize\<close> once; what follows is the
  computation on the copy.
\<close>

definition getElementDimensions_method :: "BaseElement \<Rightarrow> (World, ElementDimensions) state" where
  "getElementDimensions_method element = do {
     config \<leftarrow> read_config;
     let baseSize = defaultElementSize config;
     let nameLength = length (el_name element);
     let baseSize = (if nameLength > 15
                     then baseSize\<lparr>width := max (width baseSize)
                                                  (js_mul (real nameLength) 8)\<rparr>
                     else baseSize);
     State_Monad.return
       (case typeAdjustments (el_type element) of
          Some typeAdjustment \<Rightarrow>
            \<lparr>width = max (width baseSize) (width typeAdjustment),
             height = max (height baseSize) (height typeAdjustment)\<rparr>
        | None \<Rightarrow> baseSize)
   }"

text \<open>
  \<^verbatim>\<open>layoutLayer\<close> reads the padding before the loop, the element spacing in every iteration
  (after the call of \<^verbatim>\<open>getElementDimensions\<close>), and the two spacings for the result.
\<close>

definition layoutLayer_body :: "real \<Rightarrow> BaseElement \<Rightarrow> LayerLoop \<Rightarrow> (World, LayerLoop) state" where
  "layoutLayer_body startY element st = do {
     elementDims \<leftarrow> getElementDimensions_method element;
     config \<leftarrow> read_config;
     State_Monad.return
       \<lparr>ll_positions = (ll_positions st)(el_id element \<mapsto> \<lparr>pos_x = currentX st, pos_y = startY\<rparr>),
        ll_dimensions = (ll_dimensions st)(el_id element \<mapsto> elementDims),
        currentX = js_add (currentX st) (js_add (width elementDims) (elementSpacing config)),
        maxHeight = max (maxHeight st) (height elementDims)\<rparr>
   }"

definition layoutLayer_method :: "BaseElement list \<Rightarrow> real \<Rightarrow> (World, LayerLayout) state" where
  "layoutLayer_method elements startY = do {
     config \<leftarrow> read_config;
     let sortedElements = sort_key (\<lambda>e. element_type_name (el_type e)) elements;
     st \<leftarrow> for_of (layoutLayer_body startY) sortedElements
             \<lparr>ll_positions = Map.empty, ll_dimensions = Map.empty,
              currentX = viewportPadding config, maxHeight = 0\<rparr>;
     config \<leftarrow> read_config;
     State_Monad.return
       \<lparr>layer_positions = ll_positions st,
        layer_dimensions = ll_dimensions st,
        nextY = js_add (js_add startY (maxHeight st)) (layerVerticalSpacing config),
        maxX = js_sub (currentX st) (elementSpacing config)\<rparr>
   }"

text \<open>
  \<^verbatim>\<open>generateLayout\<close> reads the padding, then the layer order for the loop, and the padding
  again for the viewport.  \<^verbatim>\<open>groupElementsByLayer\<close> touches no field.
\<close>

definition generateLayout_body ::
  "(Layer \<rightharpoonup> BaseElement list) \<Rightarrow> Layer \<Rightarrow> LayoutLoop \<Rightarrow> (World, LayoutLoop) state" where
  "generateLayout_body elementsByLayer layer st =
     (let layerElements = (case elementsByLayer layer of None \<Rightarrow> [] | Some es \<Rightarrow> es)
      in if length layerElements = 0 then State_Monad.return st
         else do {
           layerLayout \<leftarrow> layoutLayer_method layerElements (currentY st);
           State_Monad.return
             \<lparr>lo_positions = lo_positions st ++ layer_positions layerLayout,
              lo_dimensions = lo_dimensions st ++ layer_dimensions layerLayout,
              currentY = nextY layerLayout,
              maxWidth = max (maxWidth st) (maxX layerLayout)\<rparr>
         })"

definition generateLayout_method ::
  "BaseElement list \<Rightarrow> Relationship list \<Rightarrow> (World, LayoutResult) state" where
  "generateLayout_method elements relationships = do {
     let elementsByLayer = groupElementsByLayer elements;
     config \<leftarrow> read_config;
     let currentY0 = viewportPadding config;
     config \<leftarrow> read_config;
     st \<leftarrow> for_of (generateLayout_body elementsByLayer) (layerOrder config)
             \<lparr>lo_positions = Map.empty, lo_dimensions = Map.empty,
              currentY = currentY0, maxWidth = 0\<rparr>;
     config \<leftarrow> read_config;
     State_Monad.return
       \<lparr>elementPositions = lo_positions st,
        elementDimensions = lo_dimensions st,
        viewportSize = \<lparr>width = js_add (maxWidth st) (viewportPadding config),
                        height = js_add (currentY st) (viewportPadding config)\<rparr>\<rparr>
   }"

text \<open>
  The one place of the program that reads the clock, for contrast: the identifier of a view,
  \<^verbatim>\<open>options.viewId || `view-${Date.now()}`\<close>.  An absent and an empty identifier are both
  falsy.
\<close>

definition viewId_of :: "string option \<Rightarrow> (World, string) state" where
  "viewId_of viewId =
     (case viewId of
        Some v \<Rightarrow> if v \<noteq> [] then State_Monad.return v
                  else do { now \<leftarrow> Date_now; State_Monad.return (''view-'' @ show_nat now) }
      | None \<Rightarrow> do { now \<leftarrow> Date_now; State_Monad.return (''view-'' @ show_nat now) })"

section \<open>Validator: proofs\<close>

lemma elementMap_snoc: "elementMap (es @ [e]) = (elementMap es)(el_id e \<mapsto> e)"
  by (simp add: elementMap_def)

lemma elementMap_resolve: "elementMap es i = resolve es i"
proof (induction es rule: rev_induct)
  case Nil
  show ?case by (simp add: elementMap_def resolve_def)
next
  case (snoc e es)
  then show ?case by (simp add: elementMap_snoc resolve_def)
qed

lemma resolve_None_iff: "resolve es i = None \<longleftrightarrow> \<not> resolves es i"
  by (auto simp: resolve_def resolves_def find_None_iff)

lemma find_Some_mem: "find P xs = Some x \<Longrightarrow> P x \<and> x \<in> set xs"
  by (induction xs) (auto split: if_splits)

lemma validate_step_cases:
  "validate_step (elementMap es) errs r =
     (if reported es r
      then errs @ [\<lparr>err_message = invalid_message r (the (resolve es (rel_source r)))
                                 (the (resolve es (rel_target r))),
                    err_source = the (resolve es (rel_source r)),
                    err_target = the (resolve es (rel_target r)),
                    err_relationship = r\<rparr>]
      else errs)"
  by (simp add: validate_step_def reported_def permitted_def elementMap_resolve Let_def
           split: option.splits)

lemma validate_foldl_relationships:
  "map err_relationship (foldl (validate_step (elementMap es)) errs rs)
     = map err_relationship errs @ filter (reported es) rs"
  by (induction rs arbitrary: errs) (simp_all add: validate_step_cases)

lemma validate_foldl_sound:
  assumes "\<forall>v \<in> set errs. Q v"
    and "\<And>r. r \<in> set rs \<Longrightarrow> reported es r \<Longrightarrow>
           Q \<lparr>err_message = invalid_message r (the (resolve es (rel_source r)))
                                  (the (resolve es (rel_target r))),
              err_source = the (resolve es (rel_source r)),
              err_target = the (resolve es (rel_target r)),
              err_relationship = r\<rparr>"
  shows "\<forall>v \<in> set (foldl (validate_step (elementMap es)) errs rs). Q v"
  using assms
proof (induction rs arbitrary: errs)
  case Nil
  then show ?case by simp
next
  case (Cons r rs)
  have "\<forall>v \<in> set (validate_step (elementMap es) errs r). Q v"
    using Cons.prems by (simp add: validate_step_cases)
  then show ?case
    using Cons.IH [of "validate_step (elementMap es) errs r"] Cons.prems(2) by simp
qed

text \<open>
  C1.  The relationships carried by the violations that \<open>validate\<close> returns are, in order and
  with multiplicity, exactly the input relationships that are to be reported: those whose
  source and target both resolve and whose type the matrix does not permit for the ordered
  pair of element types (no entry, or an entry without that type).  So each such relationship
  contributes one violation, every other resolvable relationship contributes none, and a
  relationship whose source or target id is carried by no input element is never reported.
  Each violation names the elements its relationship's ids resolve to.
\<close>

theorem validate_reports_iff:
  "map err_relationship (validate elements relationships) = filter (reported elements) relationships
   \<and> (\<forall>r. reported elements r \<longleftrightarrow>
          (\<exists>s t. resolve elements (rel_source r) = Some s \<and> resolve elements (rel_target r) = Some t
             \<and> (allowedRelationships (el_type s) (el_type t) = None
                \<or> (\<exists>allowed. allowedRelationships (el_type s) (el_type t) = Some allowed
                      \<and> rel_type r \<notin> set allowed))))
   \<and> (\<forall>r. \<not> resolves elements (rel_source r) \<or> \<not> resolves elements (rel_target r)
          \<longrightarrow> \<not> reported elements r)
   \<and> (\<forall>v \<in> set (validate elements relationships).
          resolve elements (rel_source (err_relationship v)) = Some (err_source v)
          \<and> resolve elements (rel_target (err_relationship v)) = Some (err_target v))"
proof (intro conjI)
  show "map err_relationship (validate elements relationships)
          = filter (reported elements) relationships"
    using validate_foldl_relationships [of elements "[]" relationships]
    by (simp add: validate_def)
next
  show "\<forall>r. reported elements r \<longleftrightarrow>
          (\<exists>s t. resolve elements (rel_source r) = Some s \<and> resolve elements (rel_target r) = Some t
             \<and> (allowedRelationships (el_type s) (el_type t) = None
                \<or> (\<exists>allowed. allowedRelationships (el_type s) (el_type t) = Some allowed
                      \<and> rel_type r \<notin> set allowed)))"
    by (auto simp: reported_def permitted_def split: option.splits)
next
  show "\<forall>r. \<not> resolves elements (rel_source r) \<or> \<not> resolves elements (rel_target r)
          \<longrightarrow> \<not> reported elements r"
    by (auto simp: reported_def resolve_None_iff [symmetric] split: option.splits)
next
  have "\<forall>v \<in> set (foldl (validate_step (elementMap elements)) [] relationships).
          resolve elements (rel_source (err_relationship v)) = Some (err_source v)
          \<and> resolve elements (rel_target (err_relationship v)) = Some (err_target v)"
    by (rule validate_foldl_sound) (auto simp: reported_def split: option.splits)
  then show "\<forall>v \<in> set (validate elements relationships).
          resolve elements (rel_source (err_relationship v)) = Some (err_source v)
          \<and> resolve elements (rel_target (err_relationship v)) = Some (err_target v)"
    by (simp add: validate_def)
qed


theorem validate_reports_iff_witness:
  "map err_relationship
     (validate
        [\<lparr>el_id = ''a'', el_name = ''Customer'', el_type = BUSINESS_ACTOR, el_layer = BUSINESS\<rparr>,
         \<lparr>el_id = ''b'', el_name = ''Clerk'', el_type = BUSINESS_ROLE, el_layer = BUSINESS\<rparr>]
        [\<lparr>rel_id = ''r1'', rel_source = ''a'', rel_target = ''b'', rel_type = ASSIGNMENT\<rparr>,
         \<lparr>rel_id = ''r2'', rel_source = ''a'', rel_target = ''b'', rel_type = TRIGGERING\<rparr>,
         \<lparr>rel_id = ''r3'', rel_source = ''b'', rel_target = ''a'', rel_type = ASSIGNMENT\<rparr>,
         \<lparr>rel_id = ''r4'', rel_source = ''a'', rel_target = ''zz'', rel_type = TRIGGERING\<rparr>])
   = [\<lparr>rel_id = ''r2'', rel_source = ''a'', rel_target = ''b'', rel_type = TRIGGERING\<rparr>,
      \<lparr>rel_id = ''r3'', rel_source = ''b'', rel_target = ''a'', rel_type = ASSIGNMENT\<rparr>]"
  using validate_reports_iff
    [of "[\<lparr>el_id = ''a'', el_name = ''Customer'', el_type = BUSINESS_ACTOR, el_layer = BUSINESS\<rparr>,
          \<lparr>el_id = ''b'', el_name = ''Clerk'', el_type = BUSINESS_ROLE, el_layer = BUSINESS\<rparr>]"
        "[\<lparr>rel_id = ''r1'', rel_source = ''a'', rel_target = ''b'', rel_type = ASSIGNMENT\<rparr>,
          \<lparr>rel_id = ''r2'', rel_source = ''a'', rel_target = ''b'', rel_type = TRIGGERING\<rparr>,
          \<lparr>rel_id = ''r3'', rel_source = ''b'', rel_target = ''a'', rel_type = ASSIGNMENT\<rparr>,
          \<lparr>rel_id = ''r4'', rel_source = ''a'', rel_target = ''zz'', rel_type = TRIGGERING\<rparr>]"]
  by (simp add: reported_def resolve_def permitted_def allowedRelationships_def
        validationMatrix_def)

section \<open>Numbers: proofs\<close>

lemma round_half_even_of_int [simp]: "round_half_even (of_int z) = z"
  by (simp add: round_half_even_def)

lemma round_half_even_floor:
  "\<lfloor>y\<rfloor> \<le> round_half_even y" "round_half_even y \<le> \<lfloor>y\<rfloor> + 1"
  by (simp_all add: round_half_even_def Let_def)

lemma round_half_even_mono: "y \<le> z \<Longrightarrow> round_half_even y \<le> round_half_even z"
proof (cases "\<lfloor>y\<rfloor> = \<lfloor>z\<rfloor>")
  case True
  assume "y \<le> z"
  then show ?thesis using True by (auto simp: round_half_even_def Let_def)
next
  case False
  assume "y \<le> z"
  then have "\<lfloor>y\<rfloor> < \<lfloor>z\<rfloor>" using False floor_mono [of y z] by linarith
  then show ?thesis
    using round_half_even_floor(2) [of y] round_half_even_floor(1) [of z] by linarith
qed


lemma round_half_even_ge_int: "of_int n \<le> y \<Longrightarrow> n \<le> round_half_even y"
  using round_half_even_mono [of "of_int n" y] by simp

lemma round_half_even_le_int: "y \<le> of_int n \<Longrightarrow> round_half_even y \<le> n"
  using round_half_even_mono [of y "of_int n"] by simp

lemma floor_log2_less:
  assumes "0 < x" and "x < 2 powr (of_int n)"
  shows "\<lfloor>log 2 x\<rfloor> < n"
proof -
  have "log 2 x < of_int n"
    using assms by (simp add: log_less_iff)
  then show ?thesis by (simp add: floor_less_iff)
qed

lemma toDouble_exact:
  assumes x: "x = of_int m * 2 powr (of_int k)" and m: "\<bar>m\<bar> < 2 ^ 53" and k: "- 1074 \<le> k"
  shows "toDouble x = x"
proof (cases "m = 0")
  case True
  then show ?thesis using x by (simp add: toDouble_def)
next
  case False
  then have x0: "x \<noteq> 0" using x by simp
  have "\<bar>x\<bar> = of_int \<bar>m\<bar> * 2 powr (of_int k)"
    using x by (simp add: abs_mult)
  also have "\<dots> < 2 ^ 53 * 2 powr (of_int k)"
    using m by (intro mult_strict_right_mono) (simp_all flip: of_int_less_iff)
  also have "\<dots> = 2 powr (of_int (53 + k))"
    by (simp add: powr_add)
  finally have "\<bar>x\<bar> < 2 powr (of_int (53 + k))" .
  then have "\<lfloor>log 2 \<bar>x\<bar>\<rfloor> < 53 + k"
    using x0 by (intro floor_log2_less) simp_all
  then have b: "binade x - 52 \<le> k"
    using k by (simp add: binade_def)
  define e where "e = binade x - 52"
  define d where "d = nat (k - e)"
  have kd: "k = e + int d"
    using b by (simp add: d_def e_def)
  have "(2::real) powr (of_int k) = 2 powr (of_int e) * 2 powr (of_int (int d))"
    unfolding kd by (simp add: powr_add)
  then have x1: "x = 2 powr (of_int e) * (of_int m * 2 powr (of_int (int d)))"
    using x by simp
  have md: "(of_int m :: real) * 2 powr (of_int (int d)) = of_int (m * 2 ^ d)"
    by (simp add: powr_realpow)
  have xe: "x = 2 powr (of_int e) * of_int (m * 2 ^ d)"
    using x1 by (simp only: md)
  have q: "x / 2 powr (of_int e) = of_int (m * 2 ^ d)"
    by (subst xe) simp
  have "toDouble x = 2 powr (of_int e) * of_int (round_half_even (x / 2 powr (of_int e)))"
    using x0 by (simp add: toDouble_def e_def)
  also have "\<dots> = 2 powr (of_int e) * of_int (m * 2 ^ d)"
    by (simp only: q round_half_even_of_int)
  also have "\<dots> = x" using xe by simp
  finally show ?thesis .
qed

lemma toDouble_int: "x \<in> \<int> \<Longrightarrow> \<bar>x\<bar> < 2 ^ 53 \<Longrightarrow> toDouble x = x"
proof -
  assume "x \<in> \<int>" and b: "\<bar>x\<bar> < 2 ^ 53"
  then obtain m :: int where m: "x = of_int m" by (auto elim: Ints_cases)
  have "\<bar>m\<bar> < 2 ^ 53" using b unfolding m by (simp flip: of_int_abs) 
  then show ?thesis using toDouble_exact [of x m 0] m by simp
qed

lemma toDouble_quarter: "4 * x \<in> \<int> \<Longrightarrow> \<bar>x\<bar> < 2 ^ 51 \<Longrightarrow> toDouble x = x"
proof -
  assume "4 * x \<in> \<int>" and b: "\<bar>x\<bar> < 2 ^ 51"
  then obtain m :: int where m: "4 * x = of_int m" by (auto elim: Ints_cases)
  have "\<bar>of_int m :: real\<bar> < 2 ^ 53" using b unfolding m [symmetric] by (simp add: abs_mult)
  then have "\<bar>m\<bar> < 2 ^ 53" by (simp flip: of_int_abs)
  moreover have "x = of_int m * 2 powr (of_int (- 2))"
    using m by (simp add: powr_minus field_simps)
  ultimately show ?thesis using toDouble_exact [of x m "- 2"] by simp
qed


lemma binade_mono: "0 < x \<Longrightarrow> x \<le> y \<Longrightarrow> binade x \<le> binade y"
  unfolding binade_def by (intro max.mono floor_mono) (simp_all add: log_le_cancel_iff)

lemma toDouble_upper:
  assumes "0 < x"
  shows "toDouble x \<le> 2 powr (of_int (binade x + 1))"
proof -
  define e where "e = binade x - 52"
  have "\<lfloor>log 2 x\<rfloor> \<le> binade x" using assms by (simp add: binade_def)
  then have "log 2 x < of_int (binade x + 1)" by linarith
  then have "x < 2 powr (of_int (binade x + 1))"
    using assms by (simp add: log_less_iff)
  also have "of_int (binade x + 1) = of_int e + (53 :: real)" by (simp add: e_def)
  finally have "x < 2 powr (of_int e) * 2 ^ 53" by (simp add: powr_add)
  then have "x / 2 powr (of_int e) < of_int (2 ^ 53)"
    by (simp add: field_simps)
  then have "round_half_even (x / 2 powr (of_int e)) \<le> 2 ^ 53"
    by (intro round_half_even_le_int) simp
  then have "(of_int (round_half_even (x / 2 powr (of_int e))) :: real) \<le> 2 ^ 53"
    by (metis of_int_le_iff of_int_numeral of_int_power)
  then have "toDouble x \<le> 2 powr (of_int e) * 2 ^ 53"
    using assms by (simp add: toDouble_def e_def)
  also have "\<dots> = 2 powr (of_int e + 53)" by (simp add: powr_add)
  also have "of_int e + (53 :: real) = of_int (binade x + 1)" by (simp add: e_def)
  finally show ?thesis .
qed

lemma toDouble_lower:
  assumes "0 < x" and "- 1022 < binade x"
  shows "2 powr (of_int (binade x)) \<le> toDouble x"
proof -
  define e where "e = binade x - 52"
  have "binade x = \<lfloor>log 2 x\<rfloor>" using assms by (simp add: binade_def max_def split: if_splits)
  then have "of_int (binade x) \<le> log 2 x" by simp
  then have "2 powr (of_int (binade x)) \<le> x"
    using assms(1) by (simp add: le_log_iff)
  moreover have "of_int (binade x) = of_int e + (52 :: real)" by (simp add: e_def)
  ultimately have "2 powr (of_int e) * 2 ^ 52 \<le> x" by (simp add: powr_add)
  then have "of_int (2 ^ 52) \<le> x / 2 powr (of_int e)"
    by (simp add: field_simps)
  then have "2 ^ 52 \<le> round_half_even (x / 2 powr (of_int e))"
    by (rule round_half_even_ge_int)
  then have "(2 ^ 52 :: real) \<le> of_int (round_half_even (x / 2 powr (of_int e)))"
    by (metis of_int_le_iff of_int_numeral of_int_power)
  then have "2 powr (of_int e) * 2 ^ 52 \<le> toDouble x"
    using assms(1) by (simp add: toDouble_def e_def)
  moreover have "2 powr (of_int e) * 2 ^ 52 = 2 powr (of_int e + (52::real))" by (simp add: powr_add)
  moreover have "of_int e + (52 :: real) = of_int (binade x)" by (simp add: e_def)
  ultimately show ?thesis by simp
qed

lemma toDouble_mono_pos:
  assumes "0 < x" and "x \<le> y"
  shows "toDouble x \<le> toDouble y"
proof (cases "binade x = binade y")
  case True
  have "x / 2 powr (of_int (binade y - 52)) \<le> y / 2 powr (of_int (binade y - 52))"
    using assms by (simp add: divide_right_mono)
  then have "round_half_even (x / 2 powr (of_int (binade y - 52)))
               \<le> round_half_even (y / 2 powr (of_int (binade y - 52)))"
    by (rule round_half_even_mono)
  then show ?thesis
    using assms True by (simp add: toDouble_def mult_left_mono)
next
  case False
  then have lt: "binade x < binade y"
    using binade_mono [OF assms] by simp
  moreover have "- 1022 \<le> binade x" by (simp add: binade_def)
  ultimately have "- 1022 < binade y" by simp
  then have "2 powr (of_int (binade y)) \<le> toDouble y"
    using assms by (intro toDouble_lower) simp_all
  moreover have "toDouble x \<le> 2 powr (of_int (binade x + 1))"
    using assms(1) by (rule toDouble_upper)
  moreover have "(2::real) powr (of_int (binade x + 1)) \<le> 2 powr (of_int (binade y))"
    using lt by simp
  ultimately show ?thesis by linarith
qed

lemma toDouble_sqrt_gt_200:
  assumes "0 \<le> s" and "4 * s \<in> \<int>"
  shows "200 < toDouble (sqrt s) \<longleftrightarrow> 40000 < s"
proof (cases "40000 < s")
  case True
  obtain m :: int where m: "4 * s = of_int m" using assms(2) by (auto elim: Ints_cases)
  have "160000 < m" using True m by linarith
  then have "160001 \<le> m" by simp
  then have "(160001 :: real) \<le> of_int m" by linarith
  then have s: "40000 + 1 / 4 \<le> s" using m by linarith
  have "(200 + 1 / 2048)\<^sup>2 \<le> (40000 + 1 / 4 :: real)" by (simp add: power2_eq_square)
  then have "(200 + 1 / 2048)\<^sup>2 \<le> s" using s by linarith
  then have "200 + 1 / 2048 \<le> sqrt s"
    by (rule real_le_rsqrt)
  then have "toDouble (200 + 1 / 2048) \<le> toDouble (sqrt s)"
    by (intro toDouble_mono_pos) simp_all
  moreover have "toDouble (200 + 1 / 2048) = 200 + 1 / 2048"
    by (rule toDouble_exact [where m = 409601 and k = "- 11"]) (simp_all add: powr_minus)
  ultimately show ?thesis using True by simp
next
  case False
  then have "s \<le> 200\<^sup>2" by simp
  then have le: "sqrt s \<le> 200" by (intro real_le_lsqrt) simp_all
  have "toDouble (sqrt s) \<le> 200"
  proof (cases "s = 0")
    case True
    then show ?thesis by (simp add: toDouble_def)
  next
    case False
    then have "0 < sqrt s" using assms(1) by simp
    then have "toDouble (sqrt s) \<le> toDouble 200" using le by (rule toDouble_mono_pos)
    also have "toDouble 200 = 200" by (rule toDouble_int) simp_all
    finally show ?thesis .
  qed
  then show ?thesis using False by simp
qed


lemma binade_nat:
  assumes "2 ^ n \<le> \<bar>x\<bar>" and "\<bar>x\<bar> < 2 ^ Suc n"
  shows "binade x = int n"
proof -
  have "(0::real) < 2 ^ n" by simp
  then have pos: "0 < \<bar>x\<bar>" using assms(1) by linarith
  have "\<lfloor>log 2 \<bar>x\<bar>\<rfloor> = int n"
    using assms pos by (subst floor_log_eq_powr_iff) (simp_all add: powr_realpow powr_add)
  then show ?thesis by (simp add: binade_def)
qed

lemma toDouble_near:
  assumes "2 ^ n \<le> \<bar>x\<bar>" and "\<bar>x\<bar> < 2 ^ Suc n" and "n \<le> 52"
    and "round_half_even (x * 2 ^ (52 - n)) = m"
  shows "toDouble x = of_int m / 2 ^ (52 - n)"
proof -
  have b: "binade x = int n" using assms(1,2) by (rule binade_nat)
  have "(0::real) < 2 ^ n" by simp
  then have "0 < \<bar>x\<bar>" using assms(1) by linarith
  then have x0: "x \<noteq> 0" by auto
  have "(of_int (int n - 52) :: real) = - real (52 - n)" using assms(3) by simp
  then have p: "(2::real) powr (of_int (int n - 52)) = 1 / 2 ^ (52 - n)"
    by (simp only: powr_minus powr_realpow zero_less_numeral) (simp add: field_simps)
  show ?thesis
    unfolding toDouble_def b p using x0 assms(4) by simp
qed

lemma toDouble_far:
  assumes "2 ^ n \<le> \<bar>x\<bar>" and "\<bar>x\<bar> < 2 ^ Suc n" and "52 \<le> n"
    and "round_half_even (x / 2 ^ (n - 52)) = m"
  shows "toDouble x = of_int m * 2 ^ (n - 52)"
proof -
  have b: "binade x = int n" using assms(1,2) by (rule binade_nat)
  have "(0::real) < 2 ^ n" by simp
  then have "0 < \<bar>x\<bar>" using assms(1) by linarith
  then have x0: "x \<noteq> 0" by auto
  have "(of_int (int n - 52) :: real) = real (n - 52)" using assms(3) by simp
  then have p: "(2::real) powr (of_int (int n - 52)) = 2 ^ (n - 52)"
    by (simp only: powr_realpow zero_less_numeral)
  show ?thesis
    unfolding toDouble_def b p using x0 assms(4) by simp
qed


text \<open>Rules for evaluating the operations on literals.\<close>

lemma toDouble_0: "toDouble 0 = 0"
  by (simp add: toDouble_def)

lemma toDouble_numeral: "numeral n < (2 ^ 53 :: real) \<Longrightarrow> toDouble (numeral n) = numeral n"
  by (rule toDouble_int) simp_all

lemma toDouble_neg_numeral:
  "numeral n < (2 ^ 53 :: real) \<Longrightarrow> toDouble (- numeral n) = - numeral n"
  by (rule toDouble_int) simp_all

lemma toDouble_1: "toDouble 1 = 1"
  by (rule toDouble_int) simp_all

lemmas js_arith = js_add_def js_sub_def js_mul_def js_div_def js_square_def
  toDouble_0 toDouble_1 toDouble_numeral toDouble_neg_numeral

section \<open>Layout engine: proofs\<close>

subsection \<open>Grouping by layer\<close>

lemma groupElementsByLayer_snoc:
  "groupElementsByLayer (es @ [e]) =
     (groupElementsByLayer es)(el_layer e \<mapsto>
        (case groupElementsByLayer es (el_layer e) of None \<Rightarrow> [] | Some xs \<Rightarrow> xs) @ [e])"
  by (simp add: groupElementsByLayer_def)

lemma groupElementsByLayer_filter:
  "(case groupElementsByLayer es l of None \<Rightarrow> [] | Some xs \<Rightarrow> xs)
     = filter (\<lambda>e. el_layer e = l) es"
proof (induction es rule: rev_induct)
  case Nil
  show ?case by (simp add: groupElementsByLayer_def)
next
  case (snoc e es)
  then show ?case by (simp add: groupElementsByLayer_snoc)
qed

subsection \<open>One layer\<close>

lemma layoutLayer_step_positions:
  "ll_positions (layoutLayer_step cfg Y st e)
     = (ll_positions st)(el_id e \<mapsto> \<lparr>pos_x = currentX st, pos_y = Y\<rparr>)"
  by (simp add: layoutLayer_step_def Let_def)

lemma layoutLayer_step_maxHeight:
  "maxHeight st \<le> maxHeight (layoutLayer_step cfg Y st e)"
  by (simp add: layoutLayer_step_def Let_def)

lemma layoutLayer_fold_positions:
  "(i \<notin> el_id ` set xs \<longrightarrow>
      ll_positions (foldl (layoutLayer_step cfg Y) st xs) i = ll_positions st i)
   \<and> (i \<in> el_id ` set xs \<longrightarrow>
      (\<exists>x. ll_positions (foldl (layoutLayer_step cfg Y) st xs) i
            = Some \<lparr>pos_x = x, pos_y = Y\<rparr>))"
proof (induction xs rule: rev_induct)
  case Nil
  show ?case by simp
next
  case (snoc e xs)
  show ?case
  proof (cases "el_id e = i")
    case True
    then show ?thesis by (simp add: layoutLayer_step_positions)
  next
    case False
    then show ?thesis using snoc by (auto simp: layoutLayer_step_positions)
  qed
qed

lemma layoutLayer_fold_maxHeight:
  "maxHeight st \<le> maxHeight (foldl (layoutLayer_step cfg Y) st xs)"
proof (induction xs arbitrary: st)
  case Nil
  show ?case by simp
next
  case (Cons e xs)
  have "maxHeight st \<le> maxHeight (layoutLayer_step cfg Y st e)"
    by (rule layoutLayer_step_maxHeight)
  also have "\<dots> \<le> maxHeight (foldl (layoutLayer_step cfg Y) (layoutLayer_step cfg Y st e) xs)"
    by (rule Cons.IH)
  finally show ?case by simp
qed

lemma layoutLayer_positions_miss:
  "i \<notin> el_id ` set es \<Longrightarrow> layer_positions (layoutLayer cfg es Y) i = None"
  using layoutLayer_fold_positions
    [where cfg = cfg and Y = Y and i = i
       and st = "\<lparr>ll_positions = Map.empty, ll_dimensions = Map.empty,
                  currentX = viewportPadding cfg, maxHeight = 0\<rparr>"
       and xs = "sort_key (\<lambda>e. element_type_name (el_type e)) es"]
  by (simp add: layoutLayer_def Let_def)

lemma layoutLayer_positions_hit:
  "i \<in> el_id ` set es \<Longrightarrow>
     \<exists>x. layer_positions (layoutLayer cfg es Y) i = Some \<lparr>pos_x = x, pos_y = Y\<rparr>"
  using layoutLayer_fold_positions
    [where cfg = cfg and Y = Y and i = i
       and st = "\<lparr>ll_positions = Map.empty, ll_dimensions = Map.empty,
                  currentX = viewportPadding cfg, maxHeight = 0\<rparr>"
       and xs = "sort_key (\<lambda>e. element_type_name (el_type e)) es"]
  by (simp add: layoutLayer_def Let_def)

lemma typeAdjustments_height:
  "typeAdjustments t = Some d \<Longrightarrow> height d \<in> \<int> \<and> 0 \<le> height d \<and> height d \<le> 70"
  by (auto simp: typeAdjustments_def split: if_splits)

lemma max_Ints: "(a::real) \<in> \<int> \<Longrightarrow> b \<in> \<int> \<Longrightarrow> max a b \<in> \<int>"
  by (simp add: max_def)

lemma getElementDimensions_height:
  assumes "integral_rows cfg"
  shows "height (getElementDimensions cfg e) \<in> \<int>"
    and "\<bar>height (getElementDimensions cfg e)\<bar> \<le> 2 ^ 40"
proof -
  have h0: "height (defaultElementSize cfg) \<in> \<int>" "\<bar>height (defaultElementSize cfg)\<bar> \<le> 2 ^ 40"
    using assms by (simp_all add: integral_rows_def)
  show "height (getElementDimensions cfg e) \<in> \<int>"
    using h0(1) typeAdjustments_height [of "el_type e"]
    by (auto simp: getElementDimensions_def Let_def max_Ints split: option.splits)
  show "\<bar>height (getElementDimensions cfg e)\<bar> \<le> 2 ^ 40"
    using h0(2) typeAdjustments_height [of "el_type e"]
    by (auto simp: getElementDimensions_def Let_def max_def split: option.splits)
qed

lemma layoutLayer_fold_maxHeight_int:
  assumes "integral_rows cfg"
    and "maxHeight st \<in> \<int>" and "0 \<le> maxHeight st" and "maxHeight st \<le> 2 ^ 40"
  shows "maxHeight (foldl (layoutLayer_step cfg Y) st xs) \<in> \<int>
         \<and> 0 \<le> maxHeight (foldl (layoutLayer_step cfg Y) st xs)
         \<and> maxHeight (foldl (layoutLayer_step cfg Y) st xs) \<le> 2 ^ 40"
  using assms(2-4)
proof (induction xs arbitrary: st)
  case Nil
  then show ?case by simp
next
  case (Cons e xs)
  have m: "maxHeight (layoutLayer_step cfg Y st e)
             = max (maxHeight st) (height (getElementDimensions cfg e))"
    by (simp add: layoutLayer_step_def Let_def)
  have "maxHeight (layoutLayer_step cfg Y st e) \<in> \<int>"
    unfolding m using Cons.prems(1) getElementDimensions_height(1) [OF assms(1)]
    by (rule max_Ints)
  moreover have "0 \<le> maxHeight (layoutLayer_step cfg Y st e)"
    unfolding m using Cons.prems(2) by simp
  moreover have "maxHeight (layoutLayer_step cfg Y st e) \<le> 2 ^ 40"
    unfolding m using Cons.prems(3) getElementDimensions_height(2) [OF assms(1), of e] by simp
  ultimately show ?case
    using Cons.IH [of "layoutLayer_step cfg Y st e"] by simp
qed

lemma layoutLayer_nextY_exact:
  assumes "integral_rows cfg" and "Y \<in> \<int>" and "\<bar>Y\<bar> \<le> real (2 * n + 1) * 2 ^ 40"
    and "n \<le> 1000"
  shows "\<exists>h. h \<in> \<int> \<and> 0 \<le> h \<and> h \<le> 2 ^ 40
           \<and> nextY (layoutLayer cfg es Y) = Y + h + layerVerticalSpacing cfg"
proof -
  define h where "h = maxHeight (foldl (layoutLayer_step cfg Y)
                     \<lparr>ll_positions = Map.empty, ll_dimensions = Map.empty,
                      currentX = viewportPadding cfg, maxHeight = 0\<rparr>
                     (sort_key (\<lambda>e. element_type_name (el_type e)) es))"
  have h: "h \<in> \<int> \<and> 0 \<le> h \<and> h \<le> 2 ^ 40"
    unfolding h_def by (rule layoutLayer_fold_maxHeight_int [OF assms(1)]) simp_all
  have s: "layerVerticalSpacing cfg \<in> \<int>" "\<bar>layerVerticalSpacing cfg\<bar> \<le> 2 ^ 40"
    using assms(1) by (simp_all add: integral_rows_def)
  have "real (2 * n + 1) \<le> 2001" using assms(4) by simp
  then have "real (2 * n + 1) * 2 ^ 40 \<le> 2001 * 2 ^ 40"
    by (rule mult_right_mono) simp
  then have Y: "\<bar>Y\<bar> \<le> 2001 * 2 ^ 40" using assms(3) by linarith
  have "Y + h \<in> \<int>" using assms(2) h by simp
  moreover have "\<bar>Y + h\<bar> < 2 ^ 53" using Y h by (simp add: abs_le_iff abs_less_iff)
  ultimately have e1: "js_add Y h = Y + h"
    unfolding js_add_def by (rule toDouble_int)
  have "Y + h + layerVerticalSpacing cfg \<in> \<int>" using assms(2) h s(1) by simp
  moreover have "\<bar>Y + h + layerVerticalSpacing cfg\<bar> < 2 ^ 53"
    using Y h s(2) by (simp add: abs_le_iff abs_less_iff)
  ultimately have e2: "js_add (Y + h) (layerVerticalSpacing cfg) = Y + h + layerVerticalSpacing cfg"
    unfolding js_add_def by (rule toDouble_int)
  have "nextY (layoutLayer cfg es Y) = js_add (js_add Y h) (layerVerticalSpacing cfg)"
    by (simp add: layoutLayer_def Let_def h_def)
  then have "nextY (layoutLayer cfg es Y) = Y + h + layerVerticalSpacing cfg"
    by (simp only: e1 e2)
  then show ?thesis using h by blast
qed

subsection \<open>The loop over the layer order\<close>

lemma step_miss:
  "i \<notin> layer_ids es l \<Longrightarrow>
     lo_positions (generateLayout_step cfg (groupElementsByLayer es) st l) i = lo_positions st i"
  by (simp add: generateLayout_step_def groupElementsByLayer_filter Let_def layer_ids_def
        map_add_def layoutLayer_positions_miss)

lemma step_hit:
  assumes "i \<in> layer_ids es l"
  shows "\<exists>x. lo_positions (generateLayout_step cfg (groupElementsByLayer es) st l) i
               = Some \<lparr>pos_x = x, pos_y = currentY st\<rparr>"
proof -
  let ?les = "filter (\<lambda>e. el_layer e = l) es"
  from assms have ne: "?les \<noteq> []" by (auto simp: layer_ids_def filter_empty_conv)
  from assms have "i \<in> el_id ` set ?les" by (simp add: layer_ids_def)
  then obtain x where
    "layer_positions (layoutLayer cfg ?les (currentY st)) i = Some \<lparr>pos_x = x, pos_y = currentY st\<rparr>"
    using layoutLayer_positions_hit by blast
  then show ?thesis
    using ne by (simp add: generateLayout_step_def groupElementsByLayer_filter Let_def)
qed

lemma loop_miss:
  "\<forall>l \<in> set ls. i \<notin> layer_ids es l \<Longrightarrow>
     lo_positions (foldl (generateLayout_step cfg (groupElementsByLayer es)) st ls) i
       = lo_positions st i"
  by (induction ls arbitrary: st) (simp_all add: step_miss)

text \<open>
  The rows.  While the configuration is integral and fewer than a thousand layers have been
  laid out, the additions that compute the next row offset are exact.
\<close>

lemma step_rows:
  assumes cfg: "integral_rows cfg" and inv: "row_invariant n st" and n: "n \<le> 1000"
  shows "row_invariant (Suc n) (generateLayout_step cfg (groupElementsByLayer es) st l)"
    and "0 \<le> layerVerticalSpacing cfg \<Longrightarrow>
           currentY st \<le> currentY (generateLayout_step cfg (groupElementsByLayer es) st l)"
    and "i \<in> layer_ids es l \<Longrightarrow>
           currentY st + layerVerticalSpacing cfg
             \<le> currentY (generateLayout_step cfg (groupElementsByLayer es) st l)"
proof -
  let ?les = "filter (\<lambda>e. el_layer e = l) es"
  let ?st' = "generateLayout_step cfg (groupElementsByLayer es) st l"
  have Y: "currentY st \<in> \<int>" "\<bar>currentY st\<bar> \<le> real (2 * n + 1) * 2 ^ 40"
    using inv by (simp_all add: row_invariant_def)
  have s: "layerVerticalSpacing cfg \<in> \<int>" "\<bar>layerVerticalSpacing cfg\<bar> \<le> 2 ^ 40"
    using cfg by (simp_all add: integral_rows_def)
  have grow: "real (2 * Suc n + 1) * 2 ^ 40 = real (2 * n + 1) * 2 ^ 40 + 2 ^ 40 + 2 ^ 40"
    by (simp add: algebra_simps)
  obtain h where h: "h \<in> \<int>" "0 \<le> h" "h \<le> 2 ^ 40"
      "nextY (layoutLayer cfg ?les (currentY st)) = currentY st + h + layerVerticalSpacing cfg"
    using layoutLayer_nextY_exact [OF cfg Y n, of ?les] by blast
  have cases: "currentY ?st' = (if ?les = [] then currentY st
                                else currentY st + h + layerVerticalSpacing cfg)"
    using h(4) by (simp add: generateLayout_step_def groupElementsByLayer_filter Let_def)
  show "row_invariant (Suc n) ?st'"
    unfolding row_invariant_def grow cases using Y s h(1-3) by auto
  show "currentY st \<le> currentY ?st'" if "0 \<le> layerVerticalSpacing cfg"
    unfolding cases using that h(2) by simp
  show "currentY st + layerVerticalSpacing cfg \<le> currentY ?st'" if "i \<in> layer_ids es l"
  proof -
    from that have "?les \<noteq> []" by (auto simp: layer_ids_def filter_empty_conv)
    then show ?thesis unfolding cases using h(2) by simp
  qed
qed

lemma loop_rows:
  assumes cfg: "integral_rows cfg"
  shows "row_invariant n st \<Longrightarrow> n + length ls \<le> 1001 \<Longrightarrow>
           row_invariant (n + length ls)
             (foldl (generateLayout_step cfg (groupElementsByLayer es)) st ls)
           \<and> (0 \<le> layerVerticalSpacing cfg \<longrightarrow>
                currentY st
                  \<le> currentY (foldl (generateLayout_step cfg (groupElementsByLayer es)) st ls))"
proof (induction ls arbitrary: n st)
  case Nil
  then show ?case by simp
next
  case (Cons l ls)
  let ?st' = "generateLayout_step cfg (groupElementsByLayer es) st l"
  have n: "n \<le> 1000" using Cons.prems(2) by simp
  have inv': "row_invariant (Suc n) ?st'"
    using step_rows(1) [OF cfg Cons.prems(1) n] .
  have "Suc n + length ls \<le> 1001" using Cons.prems(2) by simp
  then have IH: "row_invariant (Suc n + length ls)
                   (foldl (generateLayout_step cfg (groupElementsByLayer es)) ?st' ls)
                 \<and> (0 \<le> layerVerticalSpacing cfg \<longrightarrow>
                      currentY ?st'
                        \<le> currentY (foldl (generateLayout_step cfg (groupElementsByLayer es))
                                       ?st' ls))"
    using Cons.IH [OF inv'] by blast
  have "0 \<le> layerVerticalSpacing cfg \<Longrightarrow> currentY st \<le> currentY ?st'"
    using step_rows(2) [OF cfg Cons.prems(1) n] .
  then show ?case using IH by auto
qed

lemma split_two:
  assumes "i < j" and "j < length xs"
  shows "\<exists>p q r. xs = p @ xs ! i # q @ xs ! j # r"
proof -
  have a: "xs = take j xs @ xs ! j # drop (Suc j) xs"
    using assms(2) by (rule id_take_nth_drop)
  have "i < length (take j xs)" using assms by simp
  then have "take j xs = take i (take j xs) @ take j xs ! i # drop (Suc i) (take j xs)"
    by (rule id_take_nth_drop)
  then have b: "take j xs = take i (take j xs) @ xs ! i # drop (Suc i) (take j xs)"
    using assms(1) by simp
  have "xs = (take i (take j xs) @ xs ! i # drop (Suc i) (take j xs)) @ xs ! j # drop (Suc j) xs"
    using a b by simp
  then show ?thesis by (metis append.assoc append_Cons)
qed

lemma canonicalOrder_nth: "canonicalOrder ! layer_rank l = l"
  by (cases l) (simp_all add: canonicalOrder_def)

lemma layer_rank_bound: "layer_rank l < length canonicalOrder"
  by (cases l) (simp_all add: canonicalOrder_def)

lemma canonicalOrder_split:
  assumes "layer_rank la < layer_rank lb"
  shows "\<exists>p q r. canonicalOrder = p @ la # q @ lb # r"
  using split_two [OF assms layer_rank_bound [of lb]] by (simp add: canonicalOrder_nth)

lemma distinct_canonicalOrder: "distinct canonicalOrder"
  by (simp add: canonicalOrder_def)

lemma ordered_positions:
  assumes order: "layerOrder cfg = p @ la # q @ lb # r" and dist: "distinct (layerOrder cfg)"
    and len: "length (layerOrder cfg) \<le> 1000"
    and rows: "integral_rows cfg" and spacing: "0 < layerVerticalSpacing cfg"
    and ia: "i \<in> layer_ids es la" and only_a: "\<forall>l. l \<noteq> la \<longrightarrow> i \<notin> layer_ids es l"
    and jb: "j \<in> layer_ids es lb" and only_b: "\<forall>l. l \<noteq> lb \<longrightarrow> j \<notin> layer_ids es l"
  shows "\<exists>pa pb. elementPositions (generateLayout cfg es rs) i = Some pa
            \<and> elementPositions (generateLayout cfg es rs) j = Some pb
            \<and> pos_y pa < pos_y pb"
proof -
  let ?step = "generateLayout_step cfg (groupElementsByLayer es)"
  let ?st0 = "\<lparr>lo_positions = Map.empty, lo_dimensions = Map.empty,
               currentY = viewportPadding cfg, maxWidth = 0\<rparr>"
  let ?st1 = "foldl ?step ?st0 p"
  let ?st2 = "?step ?st1 la"
  let ?st3 = "foldl ?step ?st2 q"
  let ?st4 = "?step ?st3 lb"
  let ?st5 = "foldl ?step ?st4 r"
  have final: "foldl ?step ?st0 (layerOrder cfg) = ?st5"
    by (simp add: order)
  have la_q: "la \<notin> set q" and la_lb: "la \<noteq> lb" and la_r: "la \<notin> set r" and lb_r: "lb \<notin> set r"
    using dist by (auto simp: order)
  have lens: "length p + length q \<le> 998"
    using len by (simp add: order)
  have inv0: "row_invariant 0 ?st0"
    using rows by (simp add: row_invariant_def integral_rows_def)
  have inv1: "row_invariant (0 + length p) ?st1"
    using loop_rows [OF rows inv0, of p es] lens by simp
  then have inv1': "row_invariant (length p) ?st1" by simp
  have np: "length p \<le> 1000" using lens by simp
  have inv2: "row_invariant (Suc (length p)) ?st2"
    using step_rows(1) [OF rows inv1' np] .
  obtain xa where a2: "lo_positions ?st2 i = Some \<lparr>pos_x = xa, pos_y = currentY ?st1\<rparr>"
    using step_hit [OF ia] by blast
  have y12: "currentY ?st1 + layerVerticalSpacing cfg \<le> currentY ?st2"
    using step_rows(3) [OF rows inv1' np ia] .
  have a3: "lo_positions ?st3 i = lo_positions ?st2 i"
    by (rule loop_miss) (use la_q only_a in auto)
  have a4: "lo_positions ?st4 i = lo_positions ?st3 i"
    by (rule step_miss) (use la_lb only_a in auto)
  have a5: "lo_positions ?st5 i = lo_positions ?st4 i"
    by (rule loop_miss) (use la_r only_a in auto)
  have y23: "currentY ?st2 \<le> currentY ?st3"
    using loop_rows [OF rows inv2, of q es] lens spacing by simp
  obtain xb where b4: "lo_positions ?st4 j = Some \<lparr>pos_x = xb, pos_y = currentY ?st3\<rparr>"
    using step_hit [OF jb] by blast
  have b5: "lo_positions ?st5 j = lo_positions ?st4 j"
    by (rule loop_miss) (use lb_r only_b in auto)
  have pa: "elementPositions (generateLayout cfg es rs) i
              = Some \<lparr>pos_x = xa, pos_y = currentY ?st1\<rparr>"
    using a2 a3 a4 a5 final by (simp add: generateLayout_def Let_def)
  have pb: "elementPositions (generateLayout cfg es rs) j
              = Some \<lparr>pos_x = xb, pos_y = currentY ?st3\<rparr>"
    using b4 b5 final by (simp add: generateLayout_def Let_def)
  have "currentY ?st1 < currentY ?st3"
    using y12 y23 spacing by linarith
  then show ?thesis using pa pb by simp
qed

lemma layer_ids_own:
  "a \<in> set es \<Longrightarrow> el_id a \<in> layer_ids es (el_layer a)"
  by (auto simp: layer_ids_def)

lemma layer_ids_only:
  "\<forall>c \<in> set es. el_id c = el_id a \<longrightarrow> el_layer c = el_layer a \<Longrightarrow>
     \<forall>l. l \<noteq> el_layer a \<longrightarrow> el_id a \<notin> layer_ids es l"
  by (auto simp: layer_ids_def)

subsection \<open>Claims about the layout\<close>

text \<open>
  C4, as amended.  Let the engine use the canonical layer order and a positive inter-layer
  spacing, and let the viewport padding, the inter-layer spacing and the default element
  height be integers of magnitude at most $2^{40}$ (the default configuration has all of
  this), so that the additions that compute the row offsets are exact in double precision.
  Let \<open>a\<close> and \<open>b\<close> be input elements such that no input element of another layer carries
  the id of \<open>a\<close> or the id of \<open>b\<close> (in particular, when ids are unique).  If the layer of
  \<open>a\<close> precedes the layer of \<open>b\<close> in the canonical order, both ids have a position and the
  y-coordinate of \<open>a\<close> is strictly less than that of \<open>b\<close>.
\<close>

theorem layer_ordering:
  assumes "layerOrder cfg = canonicalOrder" and "0 < layerVerticalSpacing cfg"
    and "integral_rows cfg"
    and "a \<in> set elements" and "b \<in> set elements"
    and "layer_rank (el_layer a) < layer_rank (el_layer b)"
    and "\<forall>c \<in> set elements. el_id c = el_id a \<longrightarrow> el_layer c = el_layer a"
    and "\<forall>c \<in> set elements. el_id c = el_id b \<longrightarrow> el_layer c = el_layer b"
  shows "\<exists>pa pb. elementPositions (generateLayout cfg elements relationships) (el_id a) = Some pa
            \<and> elementPositions (generateLayout cfg elements relationships) (el_id b) = Some pb
            \<and> pos_y pa < pos_y pb"
proof -
  obtain p q r where "canonicalOrder = p @ el_layer a # q @ el_layer b # r"
    using canonicalOrder_split [OF assms(6)] by blast
  then have order: "layerOrder cfg = p @ el_layer a # q @ el_layer b # r"
    using assms(1) by simp
  have dist: "distinct (layerOrder cfg)"
    using assms(1) distinct_canonicalOrder by simp
  have len: "length (layerOrder cfg) \<le> 1000"
    using assms(1) by (simp add: canonicalOrder_def)
  show ?thesis
    by (rule ordered_positions [OF order dist len assms(3) assms(2)
          layer_ids_own [OF assms(4)] layer_ids_only [OF assms(7)]
          layer_ids_own [OF assms(5)] layer_ids_only [OF assms(8)]])
qed

theorem layer_ordering_witness:
  "\<exists>pa pb.
      elementPositions
        (generateLayout defaultConfiguration
           [\<lparr>el_id = ''b'', el_name = ''Order Processing'', el_type = BUSINESS_PROCESS,
              el_layer = BUSINESS\<rparr>,
            \<lparr>el_id = ''g'', el_name = ''Grow'', el_type = GOAL, el_layer = MOTIVATION\<rparr>] [])
        ''g'' = Some pa
    \<and> elementPositions
        (generateLayout defaultConfiguration
           [\<lparr>el_id = ''b'', el_name = ''Order Processing'', el_type = BUSINESS_PROCESS,
              el_layer = BUSINESS\<rparr>,
            \<lparr>el_id = ''g'', el_name = ''Grow'', el_type = GOAL, el_layer = MOTIVATION\<rparr>] [])
        ''b'' = Some pb
    \<and> pos_y pa < pos_y pb"
  using layer_ordering
    [of defaultConfiguration
        "\<lparr>el_id = ''g'', el_name = ''Grow'', el_type = GOAL, el_layer = MOTIVATION\<rparr>"
        "[\<lparr>el_id = ''b'', el_name = ''Order Processing'', el_type = BUSINESS_PROCESS,
           el_layer = BUSINESS\<rparr>,
          \<lparr>el_id = ''g'', el_name = ''Grow'', el_type = GOAL, el_layer = MOTIVATION\<rparr>]"
        "\<lparr>el_id = ''b'', el_name = ''Order Processing'', el_type = BUSINESS_PROCESS,
          el_layer = BUSINESS\<rparr>"
        "[]"]
  by (simp add: defaultConfiguration_def canonicalOrder_def integral_rows_def)

text \<open>
  Without the conditions on the ids, on the spacing and on the magnitudes the ordering
  fails.  Two elements of different layers that share the id \<open>x\<close> share one entry of the
  position map, so the Motivation element is reported at the y-coordinate of the Business
  element.  With a spacing of \<open>-200\<close> the Business row lies above the Motivation row.  And
  with a viewport padding of $10^{20}$, where neighbouring doubles are 16384 apart, adding
  the row height 55 and the spacing 120 to the offset returns the offset: the Motivation row
  and the Business row are both at $y = 10^{20}$.
\<close>

theorem layer_ordering_counterexample:
  "layer_rank (el_layer \<lparr>el_id = ''x'', el_name = ''Grow'', el_type = GOAL, el_layer = MOTIVATION\<rparr>)
     < layer_rank (el_layer \<lparr>el_id = ''x'', el_name = ''Customer'', el_type = BUSINESS_ACTOR,
                              el_layer = BUSINESS\<rparr>)
   \<and> elementPositions
         (generateLayout defaultConfiguration
            [\<lparr>el_id = ''x'', el_name = ''Grow'', el_type = GOAL, el_layer = MOTIVATION\<rparr>,
             \<lparr>el_id = ''x'', el_name = ''Customer'', el_type = BUSINESS_ACTOR,
               el_layer = BUSINESS\<rparr>] [])
         (el_id \<lparr>el_id = ''x'', el_name = ''Grow'', el_type = GOAL, el_layer = MOTIVATION\<rparr>)
       = Some \<lparr>pos_x = 60, pos_y = 235\<rparr>
   \<and> elementPositions
         (generateLayout defaultConfiguration
            [\<lparr>el_id = ''x'', el_name = ''Grow'', el_type = GOAL, el_layer = MOTIVATION\<rparr>,
             \<lparr>el_id = ''x'', el_name = ''Customer'', el_type = BUSINESS_ACTOR,
               el_layer = BUSINESS\<rparr>] [])
         (el_id \<lparr>el_id = ''x'', el_name = ''Customer'', el_type = BUSINESS_ACTOR,
                  el_layer = BUSINESS\<rparr>)
       = Some \<lparr>pos_x = 60, pos_y = 235\<rparr>
   \<and> elementPositions
         (generateLayout (defaultConfiguration\<lparr>layerVerticalSpacing := - 200\<rparr>)
            [\<lparr>el_id = ''g'', el_name = ''Grow'', el_type = GOAL, el_layer = MOTIVATION\<rparr>,
             \<lparr>el_id = ''a'', el_name = ''Customer'', el_type = BUSINESS_ACTOR,
               el_layer = BUSINESS\<rparr>] [])
         ''g''
       = Some \<lparr>pos_x = 60, pos_y = 60\<rparr>
   \<and> elementPositions
         (generateLayout (defaultConfiguration\<lparr>layerVerticalSpacing := - 200\<rparr>)
            [\<lparr>el_id = ''g'', el_name = ''Grow'', el_type = GOAL, el_layer = MOTIVATION\<rparr>,
             \<lparr>el_id = ''a'', el_name = ''Customer'', el_type = BUSINESS_ACTOR,
               el_layer = BUSINESS\<rparr>] [])
         ''a''
       = Some \<lparr>pos_x = 60, pos_y = - 85\<rparr>
   \<and> elementPositions
         (generateLayout (defaultConfiguration\<lparr>viewportPadding := 100000000000000000000\<rparr>)
            [\<lparr>el_id = ''g'', el_name = ''Grow'', el_type = GOAL, el_layer = MOTIVATION\<rparr>,
             \<lparr>el_id = ''a'', el_name = ''Customer'', el_type = BUSINESS_ACTOR,
               el_layer = BUSINESS\<rparr>] [])
         ''g''
       = Some \<lparr>pos_x = 100000000000000000000, pos_y = 100000000000000000000\<rparr>
   \<and> elementPositions
         (generateLayout (defaultConfiguration\<lparr>viewportPadding := 100000000000000000000\<rparr>)
            [\<lparr>el_id = ''g'', el_name = ''Grow'', el_type = GOAL, el_layer = MOTIVATION\<rparr>,
             \<lparr>el_id = ''a'', el_name = ''Customer'', el_type = BUSINESS_ACTOR,
               el_layer = BUSINESS\<rparr>] [])
         ''a''
       = Some \<lparr>pos_x = 100000000000000000000, pos_y = 100000000000000000000\<rparr>"
proof -
  have r1: "toDouble 100000000000000000055 = 100000000000000000000"
    by (rule toDouble_far [where n = 66 and m = 6103515625000000, THEN trans])
      (simp_all add: round_half_even_def)
  have r2: "toDouble 100000000000000000120 = 100000000000000000000"
    by (rule toDouble_far [where n = 66 and m = 6103515625000000, THEN trans])
      (simp_all add: round_half_even_def)
  show ?thesis
    by (simp add: generateLayout_def generateLayout_step_def layoutLayer_def layoutLayer_step_def
          groupElementsByLayer_def defaultConfiguration_def getElementDimensions_def
          typeAdjustments_def Let_def js_arith r1 r2)
qed

text \<open>
  C5.  The relationship-aware entry point returns the layout of \<open>generateLayout\<close>: the
  same positions, dimensions and viewport size, for every input.  The connection map is
  built and handed to the refinement pass, which returns the positions it was given.
\<close>

theorem generateRelationshipAwareLayout_is_generateLayout:
  "generateRelationshipAwareLayout cfg elements relationships
     = generateLayout cfg elements relationships
   \<and> optimizeForConnections positions connections dimensions = positions"
  by (simp add: generateRelationshipAwareLayout_def optimizeForConnections_def Let_def)

theorem generateRelationshipAwareLayout_is_generateLayout_witness:
  "elementPositions
     (generateRelationshipAwareLayout defaultConfiguration
        [\<lparr>el_id = ''a'', el_name = ''Customer'', el_type = BUSINESS_ACTOR, el_layer = BUSINESS\<rparr>,
         \<lparr>el_id = ''b'', el_name = ''Order Processing'', el_type = BUSINESS_PROCESS,
           el_layer = BUSINESS\<rparr>]
        [\<lparr>rel_id = ''r1'', rel_source = ''a'', rel_target = ''b'', rel_type = TRIGGERING\<rparr>])
   = [''a'' \<mapsto> \<lparr>pos_x = 60, pos_y = 60\<rparr>, ''b'' \<mapsto> \<lparr>pos_x = 380, pos_y = 60\<rparr>]"
  using generateRelationshipAwareLayout_is_generateLayout
    [of defaultConfiguration
        "[\<lparr>el_id = ''a'', el_name = ''Customer'', el_type = BUSINESS_ACTOR, el_layer = BUSINESS\<rparr>,
          \<lparr>el_id = ''b'', el_name = ''Order Processing'', el_type = BUSINESS_PROCESS,
            el_layer = BUSINESS\<rparr>]"
        "[\<lparr>rel_id = ''r1'', rel_source = ''a'', rel_target = ''b'', rel_type = TRIGGERING\<rparr>]"]
  by (simp add: generateLayout_def generateLayout_step_def layoutLayer_def layoutLayer_step_def
        groupElementsByLayer_def defaultConfiguration_def getElementDimensions_def
        typeAdjustments_def Let_def js_arith)
section \<open>The layout engine as an object: proofs\<close>

text \<open>
  Every method leaves the world as it found it and returns what the function of the same
  name returns for the configuration found in the world.
\<close>

lemma run_read_config [simp]: "run_state read_config w = (this_config w, w)"
  by (simp add: read_config_def)

lemma run_Date_now [simp]: "run_state Date_now w = (clock w, w)"
  by (simp add: Date_now_def)

lemma run_for_of:
  assumes "\<And>x st. run_state (body x st) w = (f st x, w)"
  shows "run_state (for_of body xs st) w = (foldl f st xs, w)"
  using assms by (induction xs arbitrary: st) simp_all

lemma run_getElementDimensions:
  "run_state (getElementDimensions_method element) w
     = (getElementDimensions (this_config w) element, w)"
  by (simp add: getElementDimensions_method_def getElementDimensions_def Let_def)

lemma run_layoutLayer_body:
  "run_state (layoutLayer_body startY element st) w
     = (layoutLayer_step (this_config w) startY st element, w)"
  by (simp add: layoutLayer_body_def layoutLayer_step_def run_getElementDimensions Let_def)

lemma run_layoutLayer:
  "run_state (layoutLayer_method elements startY) w
     = (layoutLayer (this_config w) elements startY, w)"
  by (simp add: layoutLayer_method_def layoutLayer_def Let_def
        run_for_of [of "layoutLayer_body startY" w "layoutLayer_step (this_config w) startY",
                    OF run_layoutLayer_body])

lemma run_generateLayout_body:
  "run_state (generateLayout_body elementsByLayer layer st) w
     = (generateLayout_step (this_config w) elementsByLayer st layer, w)"
  by (simp add: generateLayout_body_def generateLayout_step_def run_layoutLayer Let_def)

lemma run_generateLayout:
  "run_state (generateLayout_method elements relationships) w
     = (generateLayout (this_config w) elements relationships, w)"
  by (simp add: generateLayout_method_def generateLayout_def Let_def
        run_for_of [of "generateLayout_body (groupElementsByLayer elements)" w
                       "generateLayout_step (this_config w) (groupElementsByLayer elements)",
                    OF run_generateLayout_body])

text \<open>
  Not every computation over worlds is like that: the identifier of an unnamed view differs
  between two worlds that differ in the clock alone.
\<close>

lemma viewId_reads_the_clock:
  "fst (run_state (viewId_of None) \<lparr>this_config = defaultConfiguration, clock = 1\<rparr>) = ''view-1''
   \<and> fst (run_state (viewId_of None) \<lparr>this_config = defaultConfiguration, clock = 2\<rparr>) = ''view-2''"
  by (simp add: viewId_of_def show_nat.simps)

text \<open>
  C3.  Layout is a pure function of its input.  Run \<^verbatim>\<open>generateLayout\<close> on the same elements
  and relationships in two worlds whose engines hold the same configuration and which may
  differ in everything else, that is, in the clock: the two calls return the same layout
  result (positions, dimensions and viewport size).  A call leaves the world, and so the
  engine, unchanged; hence a second call on the same engine, made after the first, returns
  what the first returned.
\<close>

theorem generateLayout_deterministic:
  assumes "this_config w1 = this_config w2"
  shows "fst (run_state (generateLayout_method elements relationships) w1)
           = fst (run_state (generateLayout_method elements relationships) w2)
       \<and> snd (run_state (generateLayout_method elements relationships) w1) = w1
       \<and> run_state (do { first \<leftarrow> generateLayout_method elements relationships;
                          second \<leftarrow> generateLayout_method elements relationships;
                          State_Monad.return (first = second) }) w1
           = (True, w1)"
  using assms by (simp add: run_generateLayout)

theorem generateLayout_deterministic_witness:
  "fst (run_state
          (generateLayout_method
             [\<lparr>el_id = ''a'', el_name = ''Customer'', el_type = BUSINESS_ACTOR, el_layer = BUSINESS\<rparr>]
             [\<lparr>rel_id = ''r1'', rel_source = ''a'', rel_target = ''a'', rel_type = ASSOCIATION\<rparr>])
          \<lparr>this_config = defaultConfiguration, clock = 0\<rparr>)
     = fst (run_state
          (generateLayout_method
             [\<lparr>el_id = ''a'', el_name = ''Customer'', el_type = BUSINESS_ACTOR, el_layer = BUSINESS\<rparr>]
             [\<lparr>rel_id = ''r1'', rel_source = ''a'', rel_target = ''a'', rel_type = ASSOCIATION\<rparr>])
          \<lparr>this_config = defaultConfiguration, clock = 86400000\<rparr>)
   \<and> snd (run_state
          (generateLayout_method
             [\<lparr>el_id = ''a'', el_name = ''Customer'', el_type = BUSINESS_ACTOR, el_layer = BUSINESS\<rparr>]
             [\<lparr>rel_id = ''r1'', rel_source = ''a'', rel_target = ''a'', rel_type = ASSOCIATION\<rparr>])
          \<lparr>this_config = defaultConfiguration, clock = 0\<rparr>)
     = \<lparr>this_config = defaultConfiguration, clock = 0\<rparr>"
  using generateLayout_deterministic
    [of "\<lparr>this_config = defaultConfiguration, clock = 0\<rparr>"
        "\<lparr>this_config = defaultConfiguration, clock = 86400000\<rparr>"
        "[\<lparr>el_id = ''a'', el_name = ''Customer'', el_type = BUSINESS_ACTOR, el_layer = BUSINESS\<rparr>]"
        "[\<lparr>rel_id = ''r1'', rel_source = ''a'', rel_target = ''a'', rel_type = ASSOCIATION\<rparr>]"]
  by simp


section \<open>View generator: proofs\<close>

lemma visualElementMap_snoc:
  "visualElementMap (ves @ [ve]) = (visualElementMap ves)(elementRef ve \<mapsto> ve)"
  by (simp add: visualElementMap_def)

lemma visualElementMap_None_iff:
  "visualElementMap ves i = None \<longleftrightarrow> i \<notin> elementRef ` set ves"
  by (induction ves rule: rev_induct) (auto simp: visualElementMap_snoc visualElementMap_def)

lemma elementRef_createVisualElement [simp]:
  "elementRef (createVisualElement theme lr e) = el_id e"
  by (simp add: createVisualElement_def Let_def)

lemma shapes_None_iff:
  "visualElementMap (createVisualElements theme es lr) i = None \<longleftrightarrow> \<not> resolves es i"
  by (simp add: visualElementMap_None_iff createVisualElements_def resolves_def image_image)

lemma visualElementMap_Some_mem:
  "visualElementMap ves i = Some ve \<Longrightarrow> ve \<in> set ves"
  by (induction ves rule: rev_induct)
    (auto simp: visualElementMap_def split: if_splits)

lemma connectAll_Inr:
  "connectAll m rs = Inr cs \<Longrightarrow>
     list_all2 (\<lambda>r c. \<exists>s t. m (rel_source r) = Some s \<and> m (rel_target r) = Some t
                           \<and> c = visualConnection r s t) rs cs"
proof (induction rs arbitrary: cs)
  case Nil
  then show ?case by simp
next
  case (Cons r rs)
  then show ?case by (auto split: option.splits sum.splits)
qed

lemma connectAll_find:
  "connectAll m rs =
     (case find (\<lambda>r. m (rel_source r) = None \<or> m (rel_target r) = None) rs of
        Some r \<Rightarrow> Inl (Error (''Missing visual elements for relationship '' @ rel_id r))
      | None \<Rightarrow> Inr (map (\<lambda>r. visualConnection r (the (m (rel_source r))) (the (m (rel_target r)))) rs))"
  by (induction rs) (auto split: option.splits sum.splits)

lemma sqrt_gt_200: "200 < sqrt x \<longleftrightarrow> 40000 < x"
proof -
  have "sqrt 40000 = sqrt (200\<^sup>2)" by simp
  then have "sqrt 40000 = 200" by (simp only: real_sqrt_abs)
  then show ?thesis using real_sqrt_less_iff [of 40000 x] by simp
qed

text \<open>
  Shapes whose position and size are integers of magnitude at most $2^{20}$: the centres
  are half-integers, the squared distance is a multiple of a quarter below $2^{51}$, and
  every operation of \<^verbatim>\<open>calculateBendpoints\<close> up to the square root is exact.  The rounded
  square root exceeds 200 exactly when the squared distance exceeds 40000.
\<close>

lemma centre_exact:
  assumes "x \<in> \<int>" and "\<bar>x\<bar> \<le> 2 ^ 20" and "w \<in> \<int>" and "\<bar>w\<bar> \<le> 2 ^ 20"
  shows "js_add x (js_div w 2) = x + w / 2"
    and "2 * (x + w / 2) \<in> \<int>"
    and "\<bar>x + w / 2\<bar> \<le> 2 ^ 21"
proof -
  have "4 * (w / 2) = 2 * w" by simp
  then have "4 * (w / 2) \<in> \<int>" using assms(3) by simp
  moreover have "\<bar>w / 2\<bar> < 2 ^ 51" using assms(4) by (simp add: abs_le_iff abs_less_iff)
  ultimately have h: "js_div w 2 = w / 2"
    unfolding js_div_def by (rule toDouble_quarter)
  have "4 * (x + w / 2) = 4 * x + 2 * w" by simp
  then have "4 * (x + w / 2) \<in> \<int>" using assms(1,3) by simp
  moreover have "\<bar>x + w / 2\<bar> < 2 ^ 51"
    using assms(2,4) by (simp add: abs_le_iff abs_less_iff)
  ultimately have "js_add x (w / 2) = x + w / 2"
    unfolding js_add_def by (rule toDouble_quarter)
  then show "js_add x (js_div w 2) = x + w / 2" by (simp only: h)
  have "2 * (x + w / 2) = 2 * x + w" by simp
  then show "2 * (x + w / 2) \<in> \<int>" using assms(1,3) by simp
  show "\<bar>x + w / 2\<bar> \<le> 2 ^ 21"
    using assms(2,4) by (simp add: abs_le_iff abs_less_iff)
qed

lemma axis_exact:
  assumes "2 * c \<in> \<int>" and "\<bar>c\<bar> \<le> 2 ^ 21" and "2 * d \<in> \<int>" and "\<bar>d\<bar> \<le> 2 ^ 21"
  shows "js_square (js_sub d c) = (d - c)\<^sup>2"
    and "4 * (d - c)\<^sup>2 \<in> \<int>"
    and "(d - c)\<^sup>2 \<le> 2 ^ 44"
    and "js_div (js_add c d) 2 = (c + d) / 2"
proof -
  have d2: "2 * (d - c) \<in> \<int>"
  proof -
    have "2 * (d - c) = 2 * d - 2 * c" by simp
    then show ?thesis using assms(1,3) by simp
  qed
  have "4 * (d - c) = 2 * (2 * (d - c))" by simp
  then have "4 * (d - c) \<in> \<int>" using d2 by (simp only: Ints_mult Ints_numeral)
  moreover have b: "\<bar>d - c\<bar> \<le> 2 ^ 22"
    using assms(2,4) by (simp add: abs_le_iff abs_less_iff)
  then have "\<bar>d - c\<bar> < 2 ^ 51" by simp
  ultimately have sub: "js_sub d c = d - c"
    unfolding js_sub_def by (rule toDouble_quarter)
  have "4 * (d - c)\<^sup>2 = (2 * (d - c))\<^sup>2" unfolding power_mult_distrib by simp
  then show q: "4 * (d - c)\<^sup>2 \<in> \<int>" using d2 by (simp only: Ints_power)
  have "\<bar>d - c\<bar>\<^sup>2 \<le> (2 ^ 22)\<^sup>2" using b by (rule power_mono) simp
  then show le: "(d - c)\<^sup>2 \<le> 2 ^ 44" by simp
  have "\<bar>(d - c)\<^sup>2\<bar> < 2 ^ 51" using le by simp
  with q have "toDouble ((d - c)\<^sup>2) = (d - c)\<^sup>2" by (rule toDouble_quarter)
  then show "js_square (js_sub d c) = (d - c)\<^sup>2"
    by (simp add: js_square_def sub power2_eq_square)
  have s2: "2 * (c + d) \<in> \<int>"
  proof -
    have "2 * (c + d) = 2 * c + 2 * d" by simp
    then show ?thesis using assms(1,3) by simp
  qed
  have "4 * (c + d) = 2 * (2 * (c + d))" by simp
  then have "4 * (c + d) \<in> \<int>" using s2 by (simp only: Ints_mult Ints_numeral)
  moreover have bs: "\<bar>c + d\<bar> \<le> 2 ^ 22"
    using assms(2,4) by (simp add: abs_le_iff abs_less_iff)
  then have "\<bar>c + d\<bar> < 2 ^ 51" by simp
  ultimately have add: "js_add c d = c + d"
    unfolding js_add_def by (rule toDouble_quarter)
  have e: "4 * ((c + d) / 2) = 2 * (c + d)" by simp
  have "4 * ((c + d) / 2) \<in> \<int>" unfolding e by (rule s2)
  moreover have "\<bar>(c + d) / 2\<bar> < 2 ^ 51" using bs by (simp add: abs_le_iff abs_less_iff)
  ultimately have "toDouble ((c + d) / 2) = (c + d) / 2" by (rule toDouble_quarter)
  then show "js_div (js_add c d) 2 = (c + d) / 2"
    by (simp add: js_div_def add)
qed

lemma calculateBendpoints_exact:
  assumes "integral_shape s" and "integral_shape t"
  shows "calculateBendpoints s t =
           (if euclidean_distance (center s) (center t) > 200
            then Some [midpoint (center s) (center t)] else None)"
proof -
  define sx where "sx = ve_x s + ve_width s / 2"
  define sy where "sy = ve_y s + ve_height s / 2"
  define tx where "tx = ve_x t + ve_width t / 2"
  define ty where "ty = ve_y t + ve_height t / 2"
  have i: "ve_x s \<in> \<int>" "\<bar>ve_x s\<bar> \<le> 2 ^ 20" "ve_y s \<in> \<int>" "\<bar>ve_y s\<bar> \<le> 2 ^ 20"
      "ve_width s \<in> \<int>" "\<bar>ve_width s\<bar> \<le> 2 ^ 20" "ve_height s \<in> \<int>" "\<bar>ve_height s\<bar> \<le> 2 ^ 20"
    using assms(1) by (simp_all add: integral_shape_def)
  have j: "ve_x t \<in> \<int>" "\<bar>ve_x t\<bar> \<le> 2 ^ 20" "ve_y t \<in> \<int>" "\<bar>ve_y t\<bar> \<le> 2 ^ 20"
      "ve_width t \<in> \<int>" "\<bar>ve_width t\<bar> \<le> 2 ^ 20" "ve_height t \<in> \<int>" "\<bar>ve_height t\<bar> \<le> 2 ^ 20"
    using assms(2) by (simp_all add: integral_shape_def)
  note csx = centre_exact [OF i(1,2,5,6), folded sx_def]
  note csy = centre_exact [OF i(3,4,7,8), folded sy_def]
  note ctx = centre_exact [OF j(1,2,5,6), folded tx_def]
  note cty = centre_exact [OF j(3,4,7,8), folded ty_def]
  note ax = axis_exact [OF csx(2,3) ctx(2,3)]
  note ay = axis_exact [OF csy(2,3) cty(2,3)]
  define S where "S = (tx - sx)\<^sup>2 + (ty - sy)\<^sup>2"
  have "4 * S = 4 * (tx - sx)\<^sup>2 + 4 * (ty - sy)\<^sup>2" by (simp add: S_def)
  then have S4: "4 * S \<in> \<int>" using ax(2) ay(2) by simp
  have S0: "0 \<le> S" by (simp add: S_def)
  have "S \<le> 2 ^ 45" using ax(3) ay(3) by (simp add: S_def)
  then have "\<bar>S\<bar> < 2 ^ 51" using S0 by simp
  with S4 have "toDouble S = S" by (rule toDouble_quarter)
  then have sum: "js_add ((tx - sx)\<^sup>2) ((ty - sy)\<^sup>2) = S"
    by (simp add: js_add_def S_def)
  have test: "200 < js_sqrt S \<longleftrightarrow> 200 < sqrt S"
    unfolding js_sqrt_def using toDouble_sqrt_gt_200 [OF S0 S4] by (simp add: sqrt_gt_200)
  have code: "calculateBendpoints s t =
                (if 200 < js_sqrt S then Some [\<lparr>pos_x = (sx + tx) / 2, pos_y = (sy + ty) / 2\<rparr>]
                 else None)"
    by (simp add: calculateBendpoints_def Let_def csx(1) csy(1) ctx(1) cty(1)
          ax(1) ay(1) ax(4) ay(4) sum)
  have spec: "euclidean_distance (center s) (center t) = sqrt S"
      "midpoint (center s) (center t) = \<lparr>pos_x = (sx + tx) / 2, pos_y = (sy + ty) / 2\<rparr>"
    by (simp_all add: euclidean_distance_def center_def midpoint_def S_def
          sx_def sy_def tx_def ty_def)
  show ?thesis unfolding code spec test by simp
qed


text \<open>
  C6, as amended.  Let the position and the size of every shape be integers of magnitude at
  most $2^{20}$.  Whenever connection creation succeeds, the connections correspond one to
  one, in order, to the relationships; the connection of a relationship links the shapes
  registered under its source and target ids, and it carries exactly one bend point, the
  midpoint of the segment between the two shape centres, when the Euclidean distance between
  the centres exceeds 200, and no bend points otherwise.
\<close>

theorem connection_bendpoints:
  assumes "createVisualConnections relationships visualElements = Inr connections"
    and "\<forall>ve \<in> set visualElements. integral_shape ve"
  shows "list_all2
           (\<lambda>r c. \<exists>s t. visualElementMap visualElements (rel_source r) = Some s
                      \<and> visualElementMap visualElements (rel_target r) = Some t
                      \<and> relationshipRef c = rel_id r
                      \<and> vc_source c = ve_id s \<and> vc_target c = ve_id t
                      \<and> bendpoints c =
                            (if euclidean_distance (center s) (center t) > 200
                             then Some [midpoint (center s) (center t)] else None))
           relationships connections"
proof -
  have "list_all2
          (\<lambda>r c. \<exists>s t. visualElementMap visualElements (rel_source r) = Some s
                     \<and> visualElementMap visualElements (rel_target r) = Some t
                     \<and> c = visualConnection r s t)
          relationships connections"
    using assms(1) unfolding createVisualConnections_def by (rule connectAll_Inr)
  then show ?thesis
  proof (rule list_all2_mono)
    fix r c
    assume "\<exists>s t. visualElementMap visualElements (rel_source r) = Some s
                     \<and> visualElementMap visualElements (rel_target r) = Some t
                     \<and> c = visualConnection r s t"
    then obtain s t where st: "visualElementMap visualElements (rel_source r) = Some s"
        "visualElementMap visualElements (rel_target r) = Some t" "c = visualConnection r s t"
      by blast
    have "integral_shape s" and "integral_shape t"
      using assms(2) st(1,2) by (auto dest: visualElementMap_Some_mem)
    then have "relationshipRef c = rel_id r \<and> vc_source c = ve_id s \<and> vc_target c = ve_id t
            \<and> bendpoints c =
                 (if euclidean_distance (center s) (center t) > 200
                  then Some [midpoint (center s) (center t)] else None)"
      using st(3) by (simp add: visualConnection_def calculateBendpoints_exact)
    then show "\<exists>s t. visualElementMap visualElements (rel_source r) = Some s
                      \<and> visualElementMap visualElements (rel_target r) = Some t
                      \<and> relationshipRef c = rel_id r
                      \<and> vc_source c = ve_id s \<and> vc_target c = ve_id t
                      \<and> bendpoints c =
                            (if euclidean_distance (center s) (center t) > 200
                             then Some [midpoint (center s) (center t)] else None)"
      using st(1,2) by blast
  qed
qed

theorem connection_bendpoints_witness:
  "bendpoints
     (visualConnection
        \<lparr>rel_id = ''r1'', rel_source = ''a'', rel_target = ''b'', rel_type = TRIGGERING\<rparr>
        \<lparr>ve_id = ''visual-a'', elementRef = ''a'', ve_x = 60, ve_y = 60, ve_width = 140,
          ve_height = 60, ve_fillColor = ''#FFFACD'', ve_lineColor = ''#FFD700'',
          ve_textColor = ''#000000''\<rparr>
        \<lparr>ve_id = ''visual-b'', elementRef = ''b'', ve_x = 380, ve_y = 60, ve_width = 160,
          ve_height = 60, ve_fillColor = ''#FFFACD'', ve_lineColor = ''#FFD700'',
          ve_textColor = ''#000000''\<rparr>)
     = Some [\<lparr>pos_x = 295, pos_y = 90\<rparr>]
   \<and> bendpoints
     (visualConnection
        \<lparr>rel_id = ''r2'', rel_source = ''a'', rel_target = ''a'', rel_type = COMPOSITION\<rparr>
        \<lparr>ve_id = ''visual-a'', elementRef = ''a'', ve_x = 60, ve_y = 60, ve_width = 140,
          ve_height = 60, ve_fillColor = ''#FFFACD'', ve_lineColor = ''#FFD700'',
          ve_textColor = ''#000000''\<rparr>
        \<lparr>ve_id = ''visual-a'', elementRef = ''a'', ve_x = 60, ve_y = 60, ve_width = 140,
          ve_height = 60, ve_fillColor = ''#FFFACD'', ve_lineColor = ''#FFD700'',
          ve_textColor = ''#000000''\<rparr>)
     = None"
proof -
  let ?a = "\<lparr>ve_id = ''visual-a'', elementRef = ''a'', ve_x = 60, ve_y = 60, ve_width = 140,
          ve_height = 60, ve_fillColor = ''#FFFACD'', ve_lineColor = ''#FFD700'',
          ve_textColor = ''#000000''\<rparr>"
  let ?b = "\<lparr>ve_id = ''visual-b'', elementRef = ''b'', ve_x = 380, ve_y = 60, ve_width = 160,
          ve_height = 60, ve_fillColor = ''#FFFACD'', ve_lineColor = ''#FFD700'',
          ve_textColor = ''#000000''\<rparr>"
  let ?r1 = "\<lparr>rel_id = ''r1'', rel_source = ''a'', rel_target = ''b'', rel_type = TRIGGERING\<rparr>"
  let ?r2 = "\<lparr>rel_id = ''r2'', rel_source = ''a'', rel_target = ''a'', rel_type = COMPOSITION\<rparr>"
  have run: "createVisualConnections [?r1, ?r2] [?a, ?b]
               = Inr [visualConnection ?r1 ?a ?b, visualConnection ?r2 ?a ?a]"
    by (simp add: createVisualConnections_def visualElementMap_def)
  show ?thesis
    using connection_bendpoints [OF run]
    by (simp add: visualElementMap_def euclidean_distance_def center_def midpoint_def
          sqrt_gt_200 integral_shape_def)
qed

text \<open>
  Without the condition on the shapes the rule fails, because the code measures the distance
  in double precision.  With an inter-layer spacing of $2^{-23}$ and a default element
  height of 0, a Motivation element with a name of 65 characters (520 wide, centre at
  $x = 320$) and a Business element (120 wide, centre at $x = 120$) lie in rows $2^{-23}$
  apart.  The distance between the centres is $\sqrt{40000 + 2^{-46}}$, which exceeds 200;
  the code adds $2^{-46}$ to 40000, obtains 40000, takes the root 200 and, since 200 is not
  greater than 200, returns no bend point.
\<close>

theorem connection_bendpoints_counterexample:
  "generateViewShapes
     (defaultConfiguration\<lparr>layerVerticalSpacing := 1 / 8388608,
                            defaultElementSize := \<lparr>width = 120, height = 0\<rparr>\<rparr>)
     DEFAULT_COLORS
     [\<lparr>el_id = ''a'',
        el_name = ''Deliver every customer order within two working days of a payment'',
        el_type = GOAL, el_layer = MOTIVATION\<rparr>,
      \<lparr>el_id = ''b'', el_name = ''Order'', el_type = BUSINESS_OBJECT, el_layer = BUSINESS\<rparr>]
     [\<lparr>rel_id = ''r1'', rel_source = ''a'', rel_target = ''b'', rel_type = ASSOCIATION\<rparr>]
   = Inr ([\<lparr>ve_id = ''visual-a'', elementRef = ''a'', ve_x = 60, ve_y = 60, ve_width = 520,
            ve_height = 0, ve_fillColor = ''#E6D3FF'', ve_lineColor = ''#8B66CC'',
            ve_textColor = ''#000000''\<rparr>,
           \<lparr>ve_id = ''visual-b'', elementRef = ''b'', ve_x = 60, ve_y = 60 + 1 / 8388608,
            ve_width = 120, ve_height = 0, ve_fillColor = ''#FFFACD'',
            ve_lineColor = ''#FFD700'', ve_textColor = ''#000000''\<rparr>],
          [\<lparr>vc_id = ''connection-r1'', relationshipRef = ''r1'', vc_source = ''visual-a'',
            vc_target = ''visual-b'', vc_lineColor = ''#000000'', lineWidth = 1,
            bendpoints = None\<rparr>])
   \<and> 200 < euclidean_distance
             (center \<lparr>ve_id = ''visual-a'', elementRef = ''a'', ve_x = 60, ve_y = 60,
                      ve_width = 520, ve_height = 0, ve_fillColor = ''#E6D3FF'',
                      ve_lineColor = ''#8B66CC'', ve_textColor = ''#000000''\<rparr>)
             (center \<lparr>ve_id = ''visual-b'', elementRef = ''b'', ve_x = 60,
                      ve_y = 60 + 1 / 8388608, ve_width = 120, ve_height = 0,
                      ve_fillColor = ''#FFFACD'', ve_lineColor = ''#FFD700'',
                      ve_textColor = ''#000000''\<rparr>)"
proof -
  have r1: "toDouble (503316481 / 8388608) = 503316481 / 8388608"
    by (rule toDouble_exact [where m = 503316481 and k = "- 23"])
      (simp_all add: powr_minus powr_realpow)
  have r2: "toDouble (1 / 8388608) = 1 / 8388608"
    by (rule toDouble_exact [where m = 1 and k = "- 23"])
      (simp_all add: powr_minus powr_realpow)
  have r3: "toDouble (1 / 70368744177664) = 1 / 70368744177664"
    by (rule toDouble_exact [where m = 1 and k = "- 46"])
      (simp_all add: powr_minus powr_realpow)
  have r4: "toDouble (2814749767106560001 / 70368744177664) = 40000"
    by (rule toDouble_near [where n = 15 and m = 5497558138880000, THEN trans])
      (simp_all add: round_half_even_def)
  have "sqrt 40000 = sqrt (200\<^sup>2)" by simp
  then have r5: "sqrt 40000 = 200" by (simp only: real_sqrt_abs)
  show ?thesis
    by (simp add: generateViewShapes_def createVisualElements_def createVisualElement_def
          getColorsForElement_def DEFAULT_COLORS_def createVisualConnections_def visualElementMap_def
          visualConnection_def calculateBendpoints_def js_sqrt_def
          generateLayout_def generateLayout_step_def layoutLayer_def layoutLayer_step_def
          groupElementsByLayer_def defaultConfiguration_def getElementDimensions_def
          typeAdjustments_def Let_def js_arith r1 r2 r3 r4 r5
          euclidean_distance_def center_def sqrt_gt_200)
qed

lemma connections_over_shapes:
  "createVisualConnections rs (createVisualElements theme es lr) =
     (case find (dangling es) rs of
        Some r \<Rightarrow> Inl (Error (''Missing visual elements for relationship '' @ rel_id r))
      | None \<Rightarrow>
          Inr (map (\<lambda>r. visualConnection r
                          (the (visualElementMap (createVisualElements theme es lr) (rel_source r)))
                          (the (visualElementMap (createVisualElements theme es lr) (rel_target r))))
                 rs))"
proof -
  have "(\<lambda>r. visualElementMap (createVisualElements theme es lr) (rel_source r) = None
             \<or> visualElementMap (createVisualElements theme es lr) (rel_target r) = None)
          = dangling es"
    by (rule ext) (simp add: shapes_None_iff dangling_def)
  then show ?thesis
    using connectAll_find [of "visualElementMap (createVisualElements theme es lr)" rs]
    by (simp add: createVisualConnections_def)
qed

lemma connections_throw_iff:
  "(\<exists>e. createVisualConnections rs (createVisualElements theme es lr) = Inl e)
     \<longleftrightarrow> (\<exists>r \<in> set rs. dangling es r)"
  by (auto simp: connections_over_shapes find_None_iff split: option.splits dest: find_Some_mem)

text \<open>
  C10.  Shape creation maps over the input array: the shapes correspond one to one, in
  order, to the elements, each under its element's id, at the layout's position and size for
  that id or, where the layout has none, at position (100, 100) and size 120 by 55.
  Connection creation over these shapes therefore throws exactly when some relationship is
  dangling (its source or target is the id of no input element); the error names the first
  such relationship, and with none the call returns one connection per relationship.  The
  same holds of view generation as a whole, which lays the elements out first.
\<close>

theorem every_element_has_a_shape:
  "list_all2
     (\<lambda>e ve. elementRef ve = el_id e \<and> ve_id ve = ''visual-'' @ el_id e
        \<and> (ve_x ve, ve_y ve) =
             (case elementPositions layoutResult (el_id e) of
                Some p \<Rightarrow> (pos_x p, pos_y p) | None \<Rightarrow> (100, 100))
        \<and> (ve_width ve, ve_height ve) =
             (case elementDimensions layoutResult (el_id e) of
                Some d \<Rightarrow> (width d, height d) | None \<Rightarrow> (120, 55)))
     elements (createVisualElements theme elements layoutResult)
   \<and> (case find (dangling elements) relationships of
         Some r \<Rightarrow>
           createVisualConnections relationships
               (createVisualElements theme elements layoutResult)
             = Inl (Error (''Missing visual elements for relationship '' @ rel_id r))
       | None \<Rightarrow>
           (\<exists>cs. createVisualConnections relationships
                    (createVisualElements theme elements layoutResult) = Inr cs
                \<and> length cs = length relationships))
   \<and> ((\<exists>e. createVisualConnections relationships
               (createVisualElements theme elements layoutResult) = Inl e)
         \<longleftrightarrow> (\<exists>r \<in> set relationships. dangling elements r))
   \<and> ((\<exists>e. generateViewShapes cfg theme elements relationships = Inl e)
         \<longleftrightarrow> (\<exists>r \<in> set relationships. dangling elements r))"
proof -
  let ?ves = "createVisualElements theme elements layoutResult"
  have shapes: "list_all2
     (\<lambda>e ve. elementRef ve = el_id e \<and> ve_id ve = ''visual-'' @ el_id e
        \<and> (ve_x ve, ve_y ve) =
             (case elementPositions layoutResult (el_id e) of
                Some p \<Rightarrow> (pos_x p, pos_y p) | None \<Rightarrow> (100, 100))
        \<and> (ve_width ve, ve_height ve) =
             (case elementDimensions layoutResult (el_id e) of
                Some d \<Rightarrow> (width d, height d) | None \<Rightarrow> (120, 55)))
     elements ?ves"
    by (simp add: createVisualElements_def list_all2_map2 list_all2_same
          createVisualElement_def Let_def split: option.splits)
  have first: "(case find (dangling elements) relationships of
         Some r \<Rightarrow>
           createVisualConnections relationships ?ves
             = Inl (Error (''Missing visual elements for relationship '' @ rel_id r))
       | None \<Rightarrow>
           (\<exists>cs. createVisualConnections relationships ?ves = Inr cs
                \<and> length cs = length relationships))"
    by (simp add: connections_over_shapes split: option.splits)
  have iff: "(\<exists>e. createVisualConnections relationships ?ves = Inl e)
         \<longleftrightarrow> (\<exists>r \<in> set relationships. dangling elements r)"
    by (rule connections_throw_iff)
  have "(\<exists>e. generateViewShapes cfg theme elements relationships = Inl e)
         \<longleftrightarrow> (\<exists>e. createVisualConnections relationships
                    (createVisualElements theme elements
                       (generateLayout cfg elements relationships)) = Inl e)"
    by (auto simp: generateViewShapes_def Let_def split: sum.splits)
  then have pipeline: "(\<exists>e. generateViewShapes cfg theme elements relationships = Inl e)
         \<longleftrightarrow> (\<exists>r \<in> set relationships. dangling elements r)"
    by (simp only: connections_throw_iff)
  show ?thesis using shapes first iff pipeline by blast
qed

theorem every_element_has_a_shape_witness:
  "createVisualConnections
     [\<lparr>rel_id = ''r1'', rel_source = ''a'', rel_target = ''a'', rel_type = COMPOSITION\<rparr>,
      \<lparr>rel_id = ''r2'', rel_source = ''a'', rel_target = ''zz'', rel_type = FLOW\<rparr>]
     (createVisualElements Map.empty
        [\<lparr>el_id = ''a'', el_name = ''Customer'', el_type = BUSINESS_ACTOR, el_layer = BUSINESS\<rparr>]
        \<lparr>elementPositions = Map.empty, elementDimensions = Map.empty,
          viewportSize = \<lparr>width = 60, height = 120\<rparr>\<rparr>)
   = Inl (Error ''Missing visual elements for relationship r2'')"
  using every_element_has_a_shape
    [where layoutResult = "\<lparr>elementPositions = Map.empty, elementDimensions = Map.empty,
                             viewportSize = \<lparr>width = 60, height = 120\<rparr>\<rparr>"
       and elements = "[\<lparr>el_id = ''a'', el_name = ''Customer'', el_type = BUSINESS_ACTOR,
                         el_layer = BUSINESS\<rparr>]"
       and theme = Map.empty and cfg = defaultConfiguration
       and relationships =
         "[\<lparr>rel_id = ''r1'', rel_source = ''a'', rel_target = ''a'', rel_type = COMPOSITION\<rparr>,
           \<lparr>rel_id = ''r2'', rel_source = ''a'', rel_target = ''zz'', rel_type = FLOW\<rparr>]"]
  by (simp add: dangling_def resolves_def)

section \<open>XML escaping: proofs\<close>

lemma replaceAllChar_Cons:
  "replaceAllChar c rep (d # text) = (if d = c then rep else [d]) @ replaceAllChar c rep text"
  by (simp add: replaceAllChar_def)

lemma replaceAllChar_append:
  "replaceAllChar c rep (xs @ ys) = replaceAllChar c rep xs @ replaceAllChar c rep ys"
  by (simp add: replaceAllChar_def)

lemma replaceAllChar_Nil: "replaceAllChar c rep [] = []"
  by (simp add: replaceAllChar_def)

lemma escapeXml_Nil: "escapeXml [] = []"
  by (simp add: escapeXml_def replaceAllChar_Nil)

lemma escapeXml_Cons: "escapeXml (c # text) = escape_char c @ escapeXml text"
  by (simp add: escapeXml_def escape_char_def replaceAllChar_Cons replaceAllChar_append
        replaceAllChar_Nil)

lemma escapeXml_concat: "escapeXml s = concat (map escape_char s)"
  by (induction s) (simp_all add: escapeXml_Nil escapeXml_Cons)

lemma char_of_39: "char_of (39::nat) = CHR 0x27"
  by code_simp

lemma xml_decode_escape_char:
  "xml_decode (escape_char c @ rest) = map_option ((#) c) (xml_decode rest)"
  by (simp add: escape_char_def parse_reference_def digit_value_def Let_def char_of_39)

lemma set_escape_char:
  "set (escape_char c) \<inter> {CHR ''<'', CHR ''>'', CHR 0x22, CHR 0x27} = {}"
  by (simp add: escape_char_def)

text \<open>
  C8.  Decoding the escaped form of any string gives the string back, and the escaped form
  contains none of \<^verbatim>\<open><\<close>, \<^verbatim>\<open>>\<close>, the double quote and the apostrophe.  The decoder
  rejects an ampersand that does not begin an entity or character reference, so its success
  also says that every ampersand of the escaped form begins one: none is raw.
\<close>

theorem escapeXml_roundtrip:
  "xml_decode (escapeXml name) = Some name
   \<and> set (escapeXml name) \<inter> {CHR ''<'', CHR ''>'', CHR 0x22, CHR 0x27} = {}"
proof (induction name)
  case Nil
  show ?case by (simp add: escapeXml_Nil)
next
  case (Cons c name)
  have "xml_decode (escapeXml (c # name)) = Some (c # name)"
    using Cons by (simp add: escapeXml_Cons xml_decode_escape_char)
  moreover have "set (escapeXml (c # name)) \<inter> {CHR ''<'', CHR ''>'', CHR 0x22, CHR 0x27} = {}"
    using Cons set_escape_char [of c] by (simp add: escapeXml_Cons Int_Un_distrib2)
  ultimately show ?case by simp
qed

theorem escapeXml_roundtrip_witness:
  "escapeXml (''A & B <C> '' @ [CHR 0x22] @ ''D'' @ [CHR 0x22] @ '' '' @ [CHR 0x27] @ ''E''
               @ [CHR 0x27])
     = ''A &amp; B &lt;C&gt; &quot;D&quot; &#39;E&#39;''
   \<and> xml_decode ''A &amp; B &lt;C&gt; &quot;D&quot; &#39;E&#39;''
     = Some (''A & B <C> '' @ [CHR 0x22] @ ''D'' @ [CHR 0x22] @ '' '' @ [CHR 0x27] @ ''E''
               @ [CHR 0x27])"
proof -
  have e: "escapeXml (''A & B <C> '' @ [CHR 0x22] @ ''D'' @ [CHR 0x22] @ '' '' @ [CHR 0x27] @ ''E''
               @ [CHR 0x27])
     = ''A &amp; B &lt;C&gt; &quot;D&quot; &#39;E&#39;''"
    by (simp add: escapeXml_concat escape_char_def)
  have "xml_decode (escapeXml (''A & B <C> '' @ [CHR 0x22] @ ''D'' @ [CHR 0x22] @ '' ''
                                 @ [CHR 0x27] @ ''E'' @ [CHR 0x27]))
     = Some (''A & B <C> '' @ [CHR 0x22] @ ''D'' @ [CHR 0x22] @ '' '' @ [CHR 0x27] @ ''E''
               @ [CHR 0x27])"
    by (rule conjunct1 [OF escapeXml_roundtrip])
  then have d: "xml_decode ''A &amp; B &lt;C&gt; &quot;D&quot; &#39;E&#39;''
     = Some (''A & B <C> '' @ [CHR 0x22] @ ''D'' @ [CHR 0x22] @ '' '' @ [CHR 0x27] @ ''E''
               @ [CHR 0x27])"
    by (simp only: e)
  show ?thesis by (rule conjI [OF e d])
qed

section \<open>Relationship generator: proofs\<close>

text \<open>The message of the error thrown for a dangling reference: the source is named first.\<close>

lemma validateRelationshipReferences_cases:
  "validateRelationshipReferences r es =
     (if \<not> resolves es (rel_source r) then
        Inl (Error (''Relationship '' @ rel_id r @ '' references non-existent source element: ''
                      @ rel_source r))
      else if \<not> resolves es (rel_target r) then
        Inl (Error (''Relationship '' @ rel_id r @ '' references non-existent target element: ''
                      @ rel_target r))
      else Inr ())"
  by (simp add: validateRelationshipReferences_def resolves_def Let_def)

text \<open>
  C7.  With \<open>validateReferences\<close> set and an element set supplied, generating a
  relationship whose source or target is the id of no supplied element throws: no string
  is returned, whatever the template; once the template has loaded, the error is the
  reference error, naming the relationship and the missing id (the source when both are
  missing).  With \<open>validateReferences\<close> unset or no element set supplied, the only error the
  call can throw is the failure to load the template; with the template loaded it returns
  the rendered fragment.
\<close>

theorem validateReferences_fails_hard:
  "(validateReferences options \<and> dangling es r \<longrightarrow>
      (\<exists>e. generateRelationship readFileSync r options (Some es) = Inl e)
      \<and> (\<forall>template. readFileSync ''relationship-template.xml'' = Inr template \<longrightarrow>
            generateRelationship readFileSync r options (Some es) =
              Inl (Error (''Relationship '' @ rel_id r @ '' references non-existent ''
                     @ (if \<not> resolves es (rel_source r)
                        then ''source element: '' @ rel_source r
                        else ''target element: '' @ rel_target r)))))
   \<and> (\<not> validateReferences options \<or> elements = None \<longrightarrow>
        (\<forall>template. readFileSync ''relationship-template.xml'' = Inr template \<longrightarrow>
           generateRelationship readFileSync r options elements =
             Inr (renderRelationship template r (generateRelationshipName r options elements)))
        \<and> (\<forall>e. generateRelationship readFileSync r options elements = Inl e \<longrightarrow>
              loadTemplate readFileSync ''relationship-template.xml'' = Inl e))"
  by (auto simp: generateRelationship_def loadTemplate_def validateRelationshipReferences_cases
        dangling_def split: sum.splits option.splits)

theorem validateReferences_fails_hard_witness:
  "generateRelationship (\<lambda>n. Inr ''{{RELATIONSHIP_TYPE}}:{{RELATIONSHIP_ID}}:{{SOURCE_ID}}:{{TARGET_ID}}'')
     \<lparr>rel_id = ''r2'', rel_source = ''a'', rel_target = ''zz'', rel_type = FLOW\<rparr>
     \<lparr>includeNames = False, validateReferences = True, groupByType = False,
       includeDocumentation = False\<rparr>
     (Some [\<lparr>el_id = ''a'', el_name = ''Customer'', el_type = BUSINESS_ACTOR,
              el_layer = BUSINESS\<rparr>])
   = Inl (Error ''Relationship r2 references non-existent target element: zz'')
   \<and> generateRelationship (\<lambda>n. Inr ''{{RELATIONSHIP_TYPE}}:{{RELATIONSHIP_ID}}:{{SOURCE_ID}}:{{TARGET_ID}}'')
     \<lparr>rel_id = ''r2'', rel_source = ''a'', rel_target = ''zz'', rel_type = FLOW\<rparr>
     \<lparr>includeNames = False, validateReferences = False, groupByType = False,
       includeDocumentation = False\<rparr>
     (Some [\<lparr>el_id = ''a'', el_name = ''Customer'', el_type = BUSINESS_ACTOR,
              el_layer = BUSINESS\<rparr>])
   = Inr ''Flow:r2:a:zz''"
proof -
  let ?rf = "\<lambda>n::string. (Inr ''{{RELATIONSHIP_TYPE}}:{{RELATIONSHIP_ID}}:{{SOURCE_ID}}:{{TARGET_ID}}''
                           :: Error + string)"
  let ?r = "\<lparr>rel_id = ''r2'', rel_source = ''a'', rel_target = ''zz'', rel_type = FLOW\<rparr>"
  let ?es = "[\<lparr>el_id = ''a'', el_name = ''Customer'', el_type = BUSINESS_ACTOR,
               el_layer = BUSINESS\<rparr>]"
  let ?on = "\<lparr>includeNames = False, validateReferences = True, groupByType = False,
              includeDocumentation = False\<rparr>"
  let ?off = "\<lparr>includeNames = False, validateReferences = False, groupByType = False,
               includeDocumentation = False\<rparr>"
  have render: "renderRelationship ''{{RELATIONSHIP_TYPE}}:{{RELATIONSHIP_ID}}:{{SOURCE_ID}}:{{TARGET_ID}}''
                  ?r (generateRelationshipName ?r ?off (Some ?es)) = ''Flow:r2:a:zz''"
    by (simp add: renderRelationship_def generateRelationshipName_def js_replace_def
          escapeXml_concat escape_char_def)
  have a: "generateRelationship ?rf ?r ?on (Some ?es)
             = Inl (Error ''Relationship r2 references non-existent target element: zz'')"
    using validateReferences_fails_hard
      [where options = ?on and es = ?es and r = ?r and readFileSync = ?rf
         and elements = "Some ?es"]
    by (simp add: dangling_def resolves_def)
  have b: "generateRelationship ?rf ?r ?off (Some ?es) = Inr ''Flow:r2:a:zz''"
    using validateReferences_fails_hard
      [where options = ?off and es = ?es and r = ?r and readFileSync = ?rf
         and elements = "Some ?es"]
    by (simp add: render)
  show ?thesis by (rule conjI [OF a b])
qed

section \<open>Exporter: proofs\<close>

lemma findOrphanedRelationships_filter:
  "findOrphanedRelationships rs es = map rel_id (filter (dangling es) rs)"
proof -
  have "foldl (\<lambda>orphaned r.
                 if rel_source r \<notin> set (map el_id es) \<or> rel_target r \<notin> set (map el_id es)
                 then orphaned @ [rel_id r] else orphaned) acc rs
          = acc @ map rel_id (filter (dangling es) rs)" for acc
    by (induction rs arbitrary: acc) (auto simp: dangling_def resolves_def)
  then show ?thesis by (simp add: findOrphanedRelationships_def Let_def)
qed

lemma duplicate_scan_Nil:
  "snd (foldl (\<lambda>(seen, duplicates) i.
                 if i \<in> seen then (seen, duplicates @ [i]) else (insert i seen, duplicates))
          (S, d) ids) = []
     \<longleftrightarrow> d = [] \<and> distinct ids \<and> set ids \<inter> S = {}"
  by (induction ids arbitrary: S d) auto

lemma duplicateIds_Nil_iff: "duplicateIds ids = [] \<longleftrightarrow> distinct ids"
  by (simp add: duplicateIds_def duplicate_scan_Nil)

lemma duplicateIds_pair: "duplicateIds [i, i] = [i]"
  by (simp add: duplicateIds_def)

lemma trim_Nil_iff: "(s = [] \<or> trim s = []) \<longleftrightarrow> list_all is_whitespace s"
proof -
  have "trim s = [] \<longleftrightarrow> (\<forall>c \<in> set (dropWhile is_whitespace s). is_whitespace c)"
    by (simp add: trim_def dropWhile_eq_Nil_conv)
  also have "\<dots> \<longleftrightarrow> dropWhile is_whitespace s = []"
  proof (cases "dropWhile is_whitespace s = []")
    case True
    then show ?thesis by (auto dest: set_dropWhileD)
  next
    case False
    then have "\<not> is_whitespace (hd (dropWhile is_whitespace s))"
      by (rule hd_dropWhile)
    moreover have "hd (dropWhile is_whitespace s) \<in> set (dropWhile is_whitespace s)"
      using False by simp
    ultimately show ?thesis using False by blast
  qed
  also have "\<dots> \<longleftrightarrow> list_all is_whitespace s"
    by (simp add: dropWhile_eq_Nil_conv list_all_iff)
  finally have "trim s = [] \<longleftrightarrow> list_all is_whitespace s" .
  then show ?thesis by auto
qed

lemma validateModelInputs_eq:
  "validateModelInputs es rs strict =
     \<lparr>vi_warnings = (if strict then [] else empty_issue es @ orphan_issue rs es)
                       @ blank_name_issue es,
      vi_errors = (if strict then empty_issue es @ orphan_issue rs es else [])
                     @ duplicate_element_issue es @ duplicate_relationship_issue rs\<rparr>"
  by (simp add: validateModelInputs_def Let_def empty_issue_def orphan_issue_def
        duplicate_element_issue_def duplicate_relationship_issue_def blank_name_issue_def
        findOrphanedRelationships_filter trim_Nil_iff)

lemma exportModel_strict_abort:
  assumes "validateModel options" and "strictValidation options"
    and "vi_errors (validateModelInputs es rs True) \<noteq> []"
  shows "exportModel generate exporter es rs options =
           (Inl (Error (''Model validation failed: ''
                          @ join '', '' (vi_errors (validateModelInputs es rs True)))),
            exporter)"
  using assms by (simp add: exportModel_def exportModel_try_def Let_def)

lemma exportModel_lenient:
  assumes "validateModel options"
    and "\<not> (strictValidation options \<and> vi_errors (validateModelInputs es rs True) \<noteq> [])"
    and "configureVisualization exporter options = Inr exporter1"
    and "generate es rs (buildModelOptions options) = Inr document"
  shows "\<exists>result. exportModel generate exporter es rs options = (Inr result, exporter1)
           \<and> xml result = document
           \<and> warnings result = vi_warnings (validateModelInputs es rs (strictValidation options))
           \<and> errors result = vi_errors (validateModelInputs es rs (strictValidation options))"
proof (cases "strictValidation options")
  case True
  then show ?thesis
    using assms by (simp add: exportModel_def exportModel_try_def Let_def)
next
  case False
  then show ?thesis
    using assms by (simp add: exportModel_def exportModel_try_def Let_def)
qed

text \<open>
  The convenience function turns every entry of the error list into a throw, so with the
  default options a model with duplicate ids is not exported through it.
\<close>

lemma exportToXml_errors:
  assumes "validateModel options" and "\<not> strictValidation options"
    and "configureVisualization defaultExporter options = Inr exporter1"
    and "generate es rs (buildModelOptions options) = Inr document"
  shows "exportToXml generate es rs options =
           (if vi_errors (validateModelInputs es rs False) = [] then Inr document
            else Inl (Error (''Export failed: ''
                               @ join '', '' (vi_errors (validateModelInputs es rs False)))))"
  using assms by (simp add: exportToXml_def exportModel_def exportModel_try_def Let_def)

text \<open>
  C2, as amended.  The pre-export validation classifies its five issues in three ways.
  The empty-element-set issue and the orphaned-relationship issue are warnings when strict
  mode is off and errors when it is on.  Duplicate element ids and duplicate relationship
  ids are errors in both modes.  The blank-name issue is a warning in both modes.
  \<open>exportModel\<close> aborts, before the document generator is called, when strict mode is on
  and the error list is not empty; otherwise validation does not abort the export, and the
  warnings and errors are returned in the result next to the document.  In particular two elements that share an id, with no
  relationships and strict mode off, yield exactly one uniqueness message, an error that
  names the id, and no uniqueness warning.
\<close>

theorem validation_classification:
  "vi_warnings (validateModelInputs es rs strict)
     = (if strict then [] else empty_issue es @ orphan_issue rs es) @ blank_name_issue es
   \<and> vi_errors (validateModelInputs es rs strict)
     = (if strict then empty_issue es @ orphan_issue rs es else [])
         @ duplicate_element_issue es @ duplicate_relationship_issue rs
   \<and> (empty_issue es = [] \<longleftrightarrow> es \<noteq> [])
   \<and> (orphan_issue rs es = [] \<longleftrightarrow> filter (dangling es) rs = [])
   \<and> (duplicate_element_issue es = [] \<longleftrightarrow> distinct (map el_id es))
   \<and> (duplicate_relationship_issue rs = [] \<longleftrightarrow> distinct (map rel_id rs))
   \<and> (validateModel options \<and> strictValidation options
        \<and> vi_errors (validateModelInputs es rs True) \<noteq> [] \<longrightarrow>
          exportModel generate exporter es rs options =
            (Inl (Error (''Model validation failed: ''
                           @ join '', '' (vi_errors (validateModelInputs es rs True)))),
             exporter))
   \<and> (validateModel options
        \<and> \<not> (strictValidation options \<and> vi_errors (validateModelInputs es rs True) \<noteq> [])
        \<and> configureVisualization exporter options = Inr exporter1
        \<and> generate es rs (buildModelOptions options) = Inr document \<longrightarrow>
          (\<exists>result. exportModel generate exporter es rs options = (Inr result, exporter1)
             \<and> xml result = document
             \<and> warnings result
                   = vi_warnings (validateModelInputs es rs (strictValidation options))
             \<and> errors result
                   = vi_errors (validateModelInputs es rs (strictValidation options))))
   \<and> (el_id e1 = el_id e2 \<longrightarrow>
          vi_errors (validateModelInputs [e1, e2] [] False)
            = [''Duplicate element IDs found: '' @ el_id e1]
          \<and> vi_warnings (validateModelInputs [e1, e2] [] False) = blank_name_issue [e1, e2])"
proof (intro conjI impI)
  show "vi_warnings (validateModelInputs es rs strict)
     = (if strict then [] else empty_issue es @ orphan_issue rs es) @ blank_name_issue es"
    by (simp add: validateModelInputs_eq)
  show "vi_errors (validateModelInputs es rs strict)
     = (if strict then empty_issue es @ orphan_issue rs es else [])
         @ duplicate_element_issue es @ duplicate_relationship_issue rs"
    by (simp add: validateModelInputs_eq)
  show "empty_issue es = [] \<longleftrightarrow> es \<noteq> []"
    by (simp add: empty_issue_def)
  show "orphan_issue rs es = [] \<longleftrightarrow> filter (dangling es) rs = []"
    by (simp add: orphan_issue_def Let_def)
  show "duplicate_element_issue es = [] \<longleftrightarrow> distinct (map el_id es)"
    by (simp add: duplicate_element_issue_def duplicateIds_Nil_iff)
  show "duplicate_relationship_issue rs = [] \<longleftrightarrow> distinct (map rel_id rs)"
    by (simp add: duplicate_relationship_issue_def duplicateIds_Nil_iff)
next
  assume "validateModel options \<and> strictValidation options
        \<and> vi_errors (validateModelInputs es rs True) \<noteq> []"
  then show "exportModel generate exporter es rs options =
            (Inl (Error (''Model validation failed: ''
                           @ join '', '' (vi_errors (validateModelInputs es rs True)))),
             exporter)"
    using exportModel_strict_abort by blast
next
  assume "validateModel options
        \<and> \<not> (strictValidation options \<and> vi_errors (validateModelInputs es rs True) \<noteq> [])
        \<and> configureVisualization exporter options = Inr exporter1
        \<and> generate es rs (buildModelOptions options) = Inr document"
  then show "\<exists>result. exportModel generate exporter es rs options = (Inr result, exporter1)
             \<and> xml result = document
             \<and> warnings result
                   = vi_warnings (validateModelInputs es rs (strictValidation options))
             \<and> errors result
                   = vi_errors (validateModelInputs es rs (strictValidation options))"
    using exportModel_lenient [of options es rs exporter exporter1 generate document] by blast
next
  assume same: "el_id e1 = el_id e2"
  show "vi_errors (validateModelInputs [e1, e2] [] False)
            = [''Duplicate element IDs found: '' @ el_id e1]"
    using same
    by (simp add: validateModelInputs_eq duplicate_element_issue_def
          duplicate_relationship_issue_def duplicateIds_pair duplicateIds_Nil_iff)
  show "vi_warnings (validateModelInputs [e1, e2] [] False) = blank_name_issue [e1, e2]"
    by (simp add: validateModelInputs_eq empty_issue_def orphan_issue_def)
qed

theorem validation_classification_witness:
  "vi_errors
     (validateModelInputs
        [\<lparr>el_id = ''x'', el_name = ''Customer'', el_type = BUSINESS_ACTOR, el_layer = BUSINESS\<rparr>,
         \<lparr>el_id = ''x'', el_name = ''Clerk'', el_type = BUSINESS_ROLE, el_layer = BUSINESS\<rparr>]
        [] False)
     = [''Duplicate element IDs found: x'']
   \<and> vi_warnings
     (validateModelInputs
        [\<lparr>el_id = ''x'', el_name = ''Customer'', el_type = BUSINESS_ACTOR, el_layer = BUSINESS\<rparr>,
         \<lparr>el_id = ''x'', el_name = ''Clerk'', el_type = BUSINESS_ROLE, el_layer = BUSINESS\<rparr>]
        [] False)
     = []"
proof -
  let ?e1 = "\<lparr>el_id = ''x'', el_name = ''Customer'', el_type = BUSINESS_ACTOR,
               el_layer = BUSINESS\<rparr>"
  let ?e2 = "\<lparr>el_id = ''x'', el_name = ''Clerk'', el_type = BUSINESS_ROLE,
               el_layer = BUSINESS\<rparr>"
  have "el_id ?e1 = el_id ?e2 \<longrightarrow>
          vi_errors (validateModelInputs [?e1, ?e2] [] False)
            = [''Duplicate element IDs found: '' @ el_id ?e1]
          \<and> vi_warnings (validateModelInputs [?e1, ?e2] [] False) = blank_name_issue [?e1, ?e2]"
    using validation_classification
      [where ?e1.0 = ?e1 and ?e2.0 = ?e2 and es = "[]" and rs = "[]" and strict = False
         and generate = "\<lambda>es rs mo. Inr []" and exporter = defaultExporter
         and ?exporter1.0 = defaultExporter and document = "[]"
         and options = "\<lparr>modelId = None, modelName = None, modelPurpose = None,
                          includeViews = None, viewName = None, opt_colorTheme = None,
                          layoutConfiguration = None, validateModel = True,
                          strictValidation = False, includeStatistics = False\<rparr>"]
    by blast
  then show ?thesis
    by (simp add: blank_name_issue_def is_whitespace_def)
qed

text \<open>
  Two evaluations.  With strict mode off, two elements that share the id \<open>x\<close> produce
  no warning at all: the uniqueness message is an error.  With strict mode on, the empty
  element set is an error, not a warning.
\<close>

theorem validation_classification_counterexample:
  "validateModelInputs
     [\<lparr>el_id = ''x'', el_name = ''Customer'', el_type = BUSINESS_ACTOR, el_layer = BUSINESS\<rparr>,
      \<lparr>el_id = ''x'', el_name = ''Clerk'', el_type = BUSINESS_ROLE, el_layer = BUSINESS\<rparr>]
     [] False
     = \<lparr>vi_warnings = [], vi_errors = [''Duplicate element IDs found: x'']\<rparr>
   \<and> validateModelInputs [] [] True
     = \<lparr>vi_warnings = [], vi_errors = [''Model contains no elements'']\<rparr>"
  by (simp add: validateModelInputs_def findOrphanedRelationships_def duplicateIds_def
        trim_def is_whitespace_def Let_def)

text \<open>
  C9.  What \<open>exportModel\<close> does when the document generator throws: once validation has
  not aborted and the visualization is configured, the call ends by throwing the very error
  the generator threw, and returns no result.  The message \<^verbatim>\<open>Export failed: ...\<close> is pushed
  onto the local result, which the rethrow discards; it is not part of the error.
\<close>

theorem exportModel_rethrows_original:
  assumes "\<not> (validateModel options \<and> strictValidation options
               \<and> vi_errors (validateModelInputs es rs True) \<noteq> [])"
    and "configureVisualization exporter options = Inr exporter1"
    and "generate es rs (buildModelOptions options) = Inl e"
  shows "exportModel generate exporter es rs options = (Inl e, exporter1)"
  using assms by (auto simp: exportModel_def exportModel_try_def Let_def)

theorem exportModel_rethrows_original_witness:
  "exportModel (\<lambda>es rs mo. Inl (Error ''Failed to load template model-template.xml''))
     defaultExporter
     [\<lparr>el_id = ''a'', el_name = ''Customer'', el_type = BUSINESS_ACTOR, el_layer = BUSINESS\<rparr>]
     []
     \<lparr>modelId = None, modelName = None, modelPurpose = None, includeViews = None,
       viewName = None, opt_colorTheme = None, layoutConfiguration = None,
       validateModel = False, strictValidation = False, includeStatistics = False\<rparr>
   = (Inl (Error ''Failed to load template model-template.xml''), defaultExporter)"
  using exportModel_rethrows_original
    [where generate = "\<lambda>es rs mo. Inl (Error ''Failed to load template model-template.xml'')"
       and exporter = defaultExporter and ?exporter1.0 = defaultExporter
       and es = "[\<lparr>el_id = ''a'', el_name = ''Customer'', el_type = BUSINESS_ACTOR,
                   el_layer = BUSINESS\<rparr>]"
       and rs = "[]"
       and e = "Error ''Failed to load template model-template.xml''"
       and options = "\<lparr>modelId = None, modelName = None, modelPurpose = None,
                        includeViews = None, viewName = None, opt_colorTheme = None,
                        layoutConfiguration = None, validateModel = False,
                        strictValidation = False, includeStatistics = False\<rparr>"]
  by (simp add: configureVisualization_def)
end
